theory Spec2Isabelle
  imports Complex_Main
begin

section \<open>Python values, exceptions and strings\<close>

text \<open>
  The assistant of \<^verbatim>\<open>app.py\<close> is a Python program. Every handler in it is
  \<^verbatim>\<open>except Exception as e\<close> or a bare \<^verbatim>\<open>except:\<close>, and the only thing a
  handler ever reads from the exception is its text \<^verbatim>\<open>str(e)\<close>. A raised exception
  is therefore modelled by that text: a computation that may raise returns
  \<open>Inl msg\<close> when it raises and \<open>Inr v\<close> when it returns \<open>v\<close>.
\<close>

type_synonym 'a res = "string + 'a"

text \<open>
  The values that travel through the tools: \<^verbatim>\<open>None\<close>, strings, integers and
  floating-point numbers. A finite float is represented by the rational number it
  denotes; the program only compares floats and prints them, it never computes with a
  weight. Not-a-number and the infinities are outside this model.
\<close>

datatype pyval = PNone | PStr string | PInt int | PFloat rat

text \<open>A decoded JSON object or a Python \<^verbatim>\<open>dict\<close> with string keys, in insertion order.\<close>

type_synonym row = "(string \<times> pyval) list"

text \<open>\<^verbatim>\<open>type(v).__name__\<close>, as it appears in the interpreter's TypeError texts.\<close>

fun type_name :: "pyval \<Rightarrow> string" where
  "type_name PNone = ''NoneType''"
| "type_name (PStr _) = ''str''"
| "type_name (PInt _) = ''int''"
| "type_name (PFloat _) = ''float''"

text \<open>Truth value of an object, as \<^verbatim>\<open>if x:\<close> and \<^verbatim>\<open>x and y\<close> test it.\<close>

fun truthy :: "pyval \<Rightarrow> bool" where
  "truthy PNone = False"
| "truthy (PStr s) = (s \<noteq> [])"
| "truthy (PInt i) = (i \<noteq> 0)"
| "truthy (PFloat r) = (r \<noteq> 0)"

subsection \<open>Decimal text of integers\<close>

definition digit :: "nat \<Rightarrow> char" where
  "digit n = ''0123456789'' ! n"

fun digits :: "nat \<Rightarrow> string" where
  "digits n = (if n < 10 then [digit n] else digits (n div 10) @ [digit (n mod 10)])"

declare digits.simps [simp del]

text \<open>\<^verbatim>\<open>str(i)\<close> for an integer.\<close>

definition str_int :: "int \<Rightarrow> string" where
  "str_int i = (if i < 0 then CHR ''-'' # digits (nat (- i)) else digits (nat i))"

text \<open>Thousands separators: the digit string cut into groups of three from the right.\<close>

fun group3 :: "string \<Rightarrow> string" where
  "group3 ds = (if length ds \<le> 3 then ds
                else group3 (take (length ds - 3) ds) @ CHR '','' # drop (length ds - 3) ds)"

declare group3.simps [simp del]

text \<open>\<^verbatim>\<open>format(i, ',')\<close> for an integer.\<close>

definition comma_int :: "int \<Rightarrow> string" where
  "comma_int i = (if i < 0 then CHR ''-'' # group3 (digits (nat (- i))) else group3 (digits (nat i)))"

text \<open>\<^verbatim>\<open>'%0*d' % (w, n)\<close> for a natural number: left-padded with zeros to width \<open>w\<close>.\<close>

definition zpad :: "nat \<Rightarrow> nat \<Rightarrow> string" where
  "zpad w n = replicate (w - length (digits n)) CHR ''0'' @ digits n"

subsection \<open>String methods\<close>

text \<open>
  Characters for which \<^verbatim>\<open>str.isspace\<close> holds, among the code points below 256:
  the ASCII controls 9 to 13 and 28 to 31, the space, NEL (133) and the no-break
  space (160).
\<close>

definition is_space :: "char \<Rightarrow> bool" where
  "is_space c = (let n = (of_char c :: nat) in
     (9 \<le> n \<and> n \<le> 13) \<or> (28 \<le> n \<and> n \<le> 32) \<or> n = 133 \<or> n = 160)"

text \<open>\<^verbatim>\<open>s.strip()\<close>\<close>

definition strip :: "string \<Rightarrow> string" where
  "strip s = rev (dropWhile is_space (rev (dropWhile is_space s)))"

text \<open>\<^verbatim>\<open>s.startswith(p)\<close>\<close>

fun startswith :: "string \<Rightarrow> string \<Rightarrow> bool" where
  "startswith s [] = True"
| "startswith [] (p # ps) = False"
| "startswith (c # cs) (p # ps) = (c = p \<and> startswith cs ps)"

text \<open>
  \<^verbatim>\<open>s.split(sep)\<close> for a one-character separator: the fields between the
  separators, empty fields kept; there is always at least one field.
\<close>

fun split_on :: "char \<Rightarrow> string \<Rightarrow> string list" where
  "split_on sep [] = [[]]"
| "split_on sep (c # cs) =
     (if c = sep then [] # split_on sep cs
      else (case split_on sep cs of
              f # fs \<Rightarrow> (c # f) # fs
            | [] \<Rightarrow> [[c]]))"

text \<open>
  \<^verbatim>\<open>s.replace(old, '')\<close> for a non-empty \<open>old\<close>: every occurrence, scanning from
  the left without overlap, is deleted.
\<close>

fun delete_all :: "string \<Rightarrow> string \<Rightarrow> string" where
  "delete_all old [] = []"
| "delete_all old (c # cs) =
     (if old \<noteq> [] \<and> startswith (c # cs) old
      then delete_all old (drop (length old) (c # cs))
      else c # delete_all old cs)"

text \<open>\<^verbatim>\<open>sep.join(xs)\<close>\<close>

fun join :: "string \<Rightarrow> string list \<Rightarrow> string" where
  "join sep [] = []"
| "join sep [x] = x"
| "join sep (x # y # ys) = x @ sep @ join sep (y # ys)"

section \<open>Calendar dates\<close>

text \<open>
  A \<^verbatim>\<open>datetime.date\<close> is represented by its proleptic Gregorian ordinal
  (\<^verbatim>\<open>date.toordinal()\<close>): 0001-01-01 is day 1 and 9999-12-31 is day 3652059,
  the largest date Python has. The conversions follow \<^verbatim>\<open>datetime.py\<close> of the
  standard library.
\<close>

type_synonym date = int

definition MAXORDINAL :: int where
  "MAXORDINAL = 3652059"

definition is_leap :: "nat \<Rightarrow> bool" where
  "is_leap y = (y mod 4 = 0 \<and> (y mod 100 \<noteq> 0 \<or> y mod 400 = 0))"

definition days_before_year :: "nat \<Rightarrow> nat" where
  "days_before_year year = (let y = year - 1 in y * 365 + y div 4 - y div 100 + y div 400)"

definition DAYS_IN_MONTH :: "nat list" where
  "DAYS_IN_MONTH = [0, 31, 28, 31, 30, 31, 30, 31, 31, 30, 31, 30, 31]"

definition DAYS_BEFORE_MONTH :: "nat list" where
  "DAYS_BEFORE_MONTH = [0, 0, 31, 59, 90, 120, 151, 181, 212, 243, 273, 304, 334]"

definition days_in_month :: "nat \<Rightarrow> nat \<Rightarrow> nat" where
  "days_in_month year month = (if month = 2 \<and> is_leap year then 29 else DAYS_IN_MONTH ! month)"

definition days_before_month :: "nat \<Rightarrow> nat \<Rightarrow> nat" where
  "days_before_month year month =
     DAYS_BEFORE_MONTH ! month + (if month > 2 \<and> is_leap year then 1 else 0)"

text \<open>\<^verbatim>\<open>_ymd2ord\<close>, for a month in 1..12.\<close>

definition ymd2ord :: "nat \<Rightarrow> nat \<Rightarrow> nat \<Rightarrow> date" where
  "ymd2ord year month day = int (days_before_year year + days_before_month year month + day)"

text \<open>\<^verbatim>\<open>_ord2ymd\<close>, for an ordinal of at least 1.\<close>

definition ord2ymd :: "date \<Rightarrow> nat \<times> nat \<times> nat" where
  "ord2ymd ordinal =
     (let n0 = nat (ordinal - 1);
          n400 = n0 div 146097; n1 = n0 mod 146097;
          n100 = n1 div 36524; n2 = n1 mod 36524;
          n4 = n2 div 1461; n3 = n2 mod 1461;
          ny = n3 div 365; n = n3 mod 365;
          year = n400 * 400 + 1 + n100 * 100 + n4 * 4 + ny
      in if ny = 4 \<or> n100 = 4 then (year - 1, 12, 31)
         else
           let leapyear = (ny = 3 \<and> (n4 \<noteq> 24 \<or> n100 = 3));
               month = (n + 50) div 32;
               preceding = DAYS_BEFORE_MONTH ! month + (if month > 2 \<and> leapyear then 1 else 0)
           in if preceding > n
              then let month' = month - 1;
                       preceding' = preceding -
                         (DAYS_IN_MONTH ! month' + (if month' = 2 \<and> leapyear then 1 else 0))
                   in (year, month', n - preceding' + 1)
              else (year, month, n - preceding + 1))"

text \<open>\<^verbatim>\<open>d.isoformat()\<close>: \<^verbatim>\<open>"%04d-%02d-%02d"\<close>.\<close>

definition isoformat :: "date \<Rightarrow> string" where
  "isoformat d = (case ord2ymd d of (y, m, dd) \<Rightarrow> zpad 4 y @ ''-'' @ zpad 2 m @ ''-'' @ zpad 2 dd)"

text \<open>
  \<^verbatim>\<open>d - timedelta(days=k)\<close>: raises OverflowError when the result leaves the
  range of dates.
\<close>

definition minus_days :: "date \<Rightarrow> int \<Rightarrow> date res" where
  "minus_days d k = (let ordinal = d - k in
     if 0 < ordinal \<and> ordinal \<le> MAXORDINAL then Inr ordinal else Inl ''date value out of range'')"

section \<open>The environment of the program\<close>

text \<open>
  What the program reads but does not define: the clock, the completion service
  (\<^verbatim>\<open>llm\<close>, \<open>None\<close> when Ollama could not be reached at start-up; its
  \<^verbatim>\<open>invoke\<close> takes the prompt and the stop sequences and returns the completion or
  raises), the flag \<^verbatim>\<open>supabase_available\<close>, the profile loaded at start-up, and
  the library functions \<^verbatim>\<open>date.fromisoformat\<close>, \<^verbatim>\<open>float\<close>, \<^verbatim>\<open>int\<close> on
  strings and the two ways a float is printed (\<^verbatim>\<open>str(x)\<close> and
  \<^verbatim>\<open>format(x, ',')\<close>). The library functions are parameters, so that a theorem
  about every environment holds for every version of them.
\<close>

record env =
  today :: date
  llm :: "(string \<Rightarrow> string list \<Rightarrow> string res) option"
  supabase_available :: bool
  USER_PROFILE :: row
  fromisoformat :: "string \<Rightarrow> date res"
  float_of_str :: "string \<Rightarrow> rat res"
  int_of_str :: "string \<Rightarrow> int res"
  repr_float :: "rat \<Rightarrow> string"
  comma_float :: "rat \<Rightarrow> string"

subsection \<open>Operators on values\<close>

text \<open>\<^verbatim>\<open>repr(s)\<close> of a string without quotes or escapes: the text between apostrophes.\<close>

definition quoted :: "string \<Rightarrow> string" where
  "quoted s = CHR 0x27 # s @ [CHR 0x27]"

text \<open>\<^verbatim>\<open>str(v)\<close>, which an f-string applies to \<^verbatim>\<open>{v}\<close>.\<close>

fun py_str :: "env \<Rightarrow> pyval \<Rightarrow> string" where
  "py_str E PNone = ''None''"
| "py_str E (PStr s) = s"
| "py_str E (PInt i) = str_int i"
| "py_str E (PFloat r) = repr_float E r"

text \<open>\<^verbatim>\<open>format(v, ',')\<close>, which an f-string applies to \<^verbatim>\<open>{v:,}\<close>.\<close>

fun fmt_comma :: "env \<Rightarrow> pyval \<Rightarrow> string res" where
  "fmt_comma E (PInt i) = Inr (comma_int i)"
| "fmt_comma E (PFloat r) = Inr (comma_float E r)"
| "fmt_comma E (PStr s) = Inl (''Cannot specify '' @ quoted '','' @ '' with '' @ quoted ''s'' @ ''.'')"
| "fmt_comma E PNone = Inl ''unsupported format string passed to NoneType.__format__''"

fun num_of :: "pyval \<Rightarrow> rat option" where
  "num_of (PInt i) = Some (of_int i)"
| "num_of (PFloat r) = Some r"
| "num_of v = None"

text \<open>Strings are ordered by code points, position by position.\<close>

fun str_lt :: "string \<Rightarrow> string \<Rightarrow> bool" where
  "str_lt [] [] = False"
| "str_lt [] (b # bs) = True"
| "str_lt (a # as) [] = False"
| "str_lt (a # as) (b # bs) = (if a = b then str_lt as bs else (of_char a :: nat) < of_char b)"

definition str_le :: "string \<Rightarrow> string \<Rightarrow> bool" where
  "str_le a b = (a = b \<or> str_lt a b)"

text \<open>
  \<^verbatim>\<open>v > w\<close>: numbers compare by value, strings by code points, and every other
  pairing raises TypeError.
\<close>

definition py_gt :: "pyval \<Rightarrow> pyval \<Rightarrow> bool res" where
  "py_gt v w =
     (case (num_of v, num_of w) of
        (Some a, Some b) \<Rightarrow> Inr (a > b)
      | _ \<Rightarrow>
        (case (v, w) of
           (PStr a, PStr b) \<Rightarrow> Inr (str_lt b a)
         | _ \<Rightarrow> Inl (quoted ''>'' @ '' not supported between instances of '' @
                    quoted (type_name v) @ '' and '' @ quoted (type_name w))))"

text \<open>
  \<^verbatim>\<open>hours = duration // 3600\<close> and \<^verbatim>\<open>minutes = (duration % 3600) // 60\<close>.
  The floor division comes first and raises TypeError for anything but a number, so
  the remainder is only ever taken of a number.
\<close>

fun hours_minutes :: "pyval \<Rightarrow> (pyval \<times> pyval) res" where
  "hours_minutes (PInt d) = Inr (PInt (d div 3600), PInt ((d mod 3600) div 60))"
| "hours_minutes (PFloat r) =
     Inr (PFloat (of_int \<lfloor>r / 3600\<rfloor>),
          PFloat (of_int \<lfloor>(r - 3600 * of_int \<lfloor>r / 3600\<rfloor>) / 60\<rfloor>))"
| "hours_minutes v =
     Inl (''unsupported operand type(s) for //: '' @ quoted (type_name v) @ '' and '' @ quoted ''int'')"

subsection \<open>Dictionaries\<close>

text \<open>\<^verbatim>\<open>d.get(k, default)\<close>\<close>

definition dict_get :: "('k \<times> pyval) list \<Rightarrow> 'k \<Rightarrow> pyval \<Rightarrow> pyval" where
  "dict_get d k dflt = (case map_of d k of Some v \<Rightarrow> v | None \<Rightarrow> dflt)"

text \<open>\<^verbatim>\<open>d[k]\<close> for a string key: a missing key raises KeyError, whose text is the quoted key.\<close>

definition dict_item :: "row \<Rightarrow> string \<Rightarrow> pyval res" where
  "dict_item d k = (case map_of d k of Some v \<Rightarrow> Inr v | None \<Rightarrow> Inl (quoted k))"

text \<open>
  \<^verbatim>\<open>d[k] = v\<close>: an existing key keeps its place in the iteration order, a new key
  goes to the end.
\<close>

fun dict_set :: "'k \<Rightarrow> 'v \<Rightarrow> ('k \<times> 'v) list \<Rightarrow> ('k \<times> 'v) list" where
  "dict_set k v [] = [(k, v)]"
| "dict_set k v ((k', v') # d) = (if k' = k then (k, v) # d else (k', v') # dict_set k v d)"

section \<open>The fact store\<close>

text \<open>
  The Supabase tables the tools touch, each a list of rows, and the state of the
  connection: \<open>DbUp\<close> answers every request; \<open>DbDown msg\<close> makes every
  \<^verbatim>\<open>execute()\<close> raise with text \<open>msg\<close>; \<open>DbReject err\<close> answers an insert with a
  response whose \<^verbatim>\<open>error\<close> attribute is \<open>err\<close> and stores nothing. The world also
  carries the log of the calls the program makes to the outside: completion requests,
  store requests and calls of a tool's function. The log is not part of the program;
  it records what the program does so that calls can be counted.
\<close>

datatype db_mode = DbUp | DbDown string | DbReject string

datatype event =
    Completion string
  | Select string
  | Insert string
  | Invoke string "pyval list"

record world =
  oura_sleep :: "row list"
  oura_activity :: "row list"
  manual_workouts :: "row list"
  db :: db_mode
  events :: "event list"

definition log_event :: "event \<Rightarrow> world \<Rightarrow> world" where
  "log_event e w = w\<lparr>events := events w @ [e]\<rparr>"

definition table :: "world \<Rightarrow> string \<Rightarrow> row list" where
  "table w name =
     (if name = ''oura_sleep'' then oura_sleep w
      else if name = ''oura_activity'' then oura_activity w
      else if name = ''manual_workouts'' then manual_workouts w
      else [])"

text \<open>\<^verbatim>\<open>.select('c1, c2, ...')\<close>: the named columns of a row, in the order asked.\<close>

definition project :: "string list \<Rightarrow> row \<Rightarrow> row" where
  "project cols r = List.map_filter (\<lambda>c. map_option (Pair c) (map_of r c)) cols"

text \<open>
  \<^verbatim>\<open>.gte(col, lo).lte(col, hi)\<close> and \<^verbatim>\<open>.eq(col, v)\<close> on a date column. The
  store holds dates in ISO form, for which the order of the texts is the order of the
  dates; a row whose column is null matches neither filter.
\<close>

definition in_range :: "string \<Rightarrow> string \<Rightarrow> string \<Rightarrow> row \<Rightarrow> bool" where
  "in_range col lo hi r =
     (case map_of r col of Some (PStr s) \<Rightarrow> str_le lo s \<and> str_le s hi | _ \<Rightarrow> False)"

definition col_eq :: "string \<Rightarrow> string \<Rightarrow> row \<Rightarrow> bool" where
  "col_eq col v r = (map_of r col = Some (PStr v))"

text \<open>\<^verbatim>\<open>.order(col, desc=True)\<close>: the rows sorted on the column's text, largest first.\<close>

definition col_text :: "string \<Rightarrow> row \<Rightarrow> string" where
  "col_text col r = (case map_of r col of Some (PStr s) \<Rightarrow> s | _ \<Rightarrow> [])"

fun insert_desc :: "string \<Rightarrow> row \<Rightarrow> row list \<Rightarrow> row list" where
  "insert_desc col r [] = [r]"
| "insert_desc col r (x # xs) =
     (if str_lt (col_text col r) (col_text col x) then x # insert_desc col r xs else r # x # xs)"

definition order_desc :: "string \<Rightarrow> row list \<Rightarrow> row list" where
  "order_desc col rs = foldr (insert_desc col) rs []"

text \<open>
  One \<^verbatim>\<open>select ... execute()\<close>: a round trip to the store, which raises when the
  store is down and otherwise returns \<^verbatim>\<open>response.data\<close>.
\<close>

definition execute_select ::
  "string \<Rightarrow> string list \<Rightarrow> (row \<Rightarrow> bool) \<Rightarrow> (row list \<Rightarrow> row list) \<Rightarrow> world \<Rightarrow> row list res \<times> world" where
  "execute_select tbl cols flt post w =
     (let w' = log_event (Select tbl) w in
      case db w of
        DbDown msg \<Rightarrow> (Inl msg, w')
      | _ \<Rightarrow> (Inr (map (project cols) (post (filter flt (table w tbl)))), w'))"

text \<open>
  \<^verbatim>\<open>supabase.table('manual_workouts').insert(data).execute()\<close>: the result is
  \<^verbatim>\<open>response.error\<close>, \<open>None\<close> when the row was stored.
\<close>

definition execute_insert :: "row \<Rightarrow> world \<Rightarrow> string option res \<times> world" where
  "execute_insert data w =
     (let w' = log_event (Insert ''manual_workouts'') w in
      case db w of
        DbDown msg \<Rightarrow> (Inl msg, w')
      | DbReject err \<Rightarrow> (Inr (Some err), w')
      | DbUp \<Rightarrow> (Inr None, w'\<lparr>manual_workouts := manual_workouts w' @ [data]\<rparr>))"

section \<open>The tools\<close>

text \<open>
  Each tool is the body of the function of that name in \<^verbatim>\<open>app.py\<close>, applied to
  parameters that are already bound. A body that lies entirely inside
  \<^verbatim>\<open>try: ... except Exception\<close> cannot raise and returns a string; the binding of
  positional arguments to parameters, which can raise, is \<open>bind_args\<close> below.
\<close>

text \<open>\<^verbatim>\<open>date.fromisoformat(v)\<close>: TypeError for an argument that is not a string.\<close>

definition parse_date :: "env \<Rightarrow> pyval \<Rightarrow> date res" where
  "parse_date E v = (case v of PStr s \<Rightarrow> fromisoformat E s | _ \<Rightarrow> Inl ''fromisoformat: argument must be str'')"

subsection \<open>\<^verbatim>\<open>get_oura_sleep_score\<close>\<close>

text \<open>
  The name \<^verbatim>\<open>summary_date\<close> is bound nowhere in \<^verbatim>\<open>app.py\<close>, neither in the
  function nor in the module: evaluating it raises NameError.
\<close>

definition summary_date :: "pyval res" where
  "summary_date = Inl (''name '' @ quoted ''summary_date'' @ '' is not defined'')"

text \<open>Lines 105 to 114: the text built from the first row of the response.\<close>

definition sleep_score_text :: "env \<Rightarrow> pyval \<Rightarrow> row \<Rightarrow> string res" where
  "sleep_score_text E day data =
     (let result = ''Sleep data for '' @ py_str E day @ '':'' @
                   ''\<newline>- Score: '' @ py_str E (dict_get data ''score'' (PStr ''N/A''));
          duration = dict_get data ''total_sleep_duration'' PNone
      in case (if truthy duration
               then (case hours_minutes duration of
                       Inl e \<Rightarrow> Inl e
                     | Inr (hours, minutes) \<Rightarrow>
                         Inr (result @ ''\<newline>- Total sleep: '' @ py_str E hours @ ''h '' @
                              py_str E minutes @ ''m''))
               else Inr result) of
           Inl e \<Rightarrow> Inl e
         | Inr result' \<Rightarrow>
             Inr (result' @ ''\<newline>- Efficiency: '' @
                  py_str E (dict_get data ''efficiency'' (PStr ''N/A'')) @ ''%''))"

definition get_oura_sleep_score :: "env \<Rightarrow> pyval \<Rightarrow> world \<Rightarrow> string \<times> world" where
  "get_oura_sleep_score E day w =
     (case parse_date E day of
        Inl e \<Rightarrow> (''Error while fetching sleep data: '' @ e, w)
      | Inr parsed_date \<Rightarrow>
          (case execute_select ''oura_sleep'' [''day'', ''score''] (\<lambda>r. True)
                  (\<lambda>rs. take 7 (order_desc ''day'' rs)) w of
             (Inl e, w') \<Rightarrow> (''Error while fetching sleep data: '' @ e, w')
           | (Inr [], w') \<Rightarrow>
               (case summary_date of
                  Inl e \<Rightarrow> (''Error while fetching sleep data: '' @ e, w')
                | Inr v \<Rightarrow> (''No Oura sleep data found for '' @ py_str E v @ ''.'', w'))
           | (Inr (data # rest), w') \<Rightarrow>
               (case sleep_score_text E day data of
                  Inl e \<Rightarrow> (''Error while fetching sleep data: '' @ e, w')
                | Inr result \<Rightarrow> (result, w'))))"

subsection \<open>\<^verbatim>\<open>get_oura_activity_steps\<close>\<close>

text \<open>Lines 128 to 133.\<close>

definition activity_text :: "env \<Rightarrow> pyval \<Rightarrow> row \<Rightarrow> string res" where
  "activity_text E day data =
     (case fmt_comma E (dict_get data ''steps'' (PInt 0)) of
        Inl e \<Rightarrow> Inl e
      | Inr steps \<Rightarrow>
          Inr (''Activity data for '' @ py_str E day @ '':'' @
               ''\<newline>- Steps: '' @ steps @
               ''\<newline>- Active calories: '' @ py_str E (dict_get data ''active_calories'' (PStr ''N/A'')) @
               ''\<newline>- Activity score: '' @ py_str E (dict_get data ''score'' (PStr ''N/A''))))"

definition get_oura_activity_steps :: "env \<Rightarrow> pyval \<Rightarrow> world \<Rightarrow> string \<times> world" where
  "get_oura_activity_steps E day w =
     (case parse_date E day of
        Inl e \<Rightarrow> (''Error while fetching activity data: '' @ e, w)
      | Inr parsed_date \<Rightarrow>
          (case execute_select ''oura_activity'' [''steps'', ''active_calories'', ''score'']
                  (col_eq ''day'' (isoformat parsed_date)) (\<lambda>rs. rs) w of
             (Inl e, w') \<Rightarrow> (''Error while fetching activity data: '' @ e, w')
           | (Inr [], w') \<Rightarrow> (''No activity data found for '' @ py_str E day @ ''.'', w')
           | (Inr (data # rest), w') \<Rightarrow>
               (case activity_text E day data of
                  Inl e \<Rightarrow> (''Error while fetching activity data: '' @ e, w')
                | Inr result \<Rightarrow> (result, w'))))"

subsection \<open>\<^verbatim>\<open>log_gym_set\<close>\<close>

text \<open>
  \<^verbatim>\<open>exercise and weight > 0 and reps > 0 and sets > 0\<close>, tested for truth: the
  operands are evaluated from the left and the first false one ends the evaluation; a
  comparison may raise.
\<close>

definition valid_params :: "pyval \<Rightarrow> pyval \<Rightarrow> pyval \<Rightarrow> pyval \<Rightarrow> bool res" where
  "valid_params exercise weight reps sets =
     (if \<not> truthy exercise then Inr False
      else case py_gt weight (PInt 0) of
             Inl e \<Rightarrow> Inl e
           | Inr False \<Rightarrow> Inr False
           | Inr True \<Rightarrow>
               (case py_gt reps (PInt 0) of
                  Inl e \<Rightarrow> Inl e
                | Inr False \<Rightarrow> Inr False
                | Inr True \<Rightarrow> py_gt sets (PInt 0)))"

definition internal_error :: string where
  "internal_error = ''An internal error occurred while trying to log the workout.''"

definition invalid_parameters :: string where
  "invalid_parameters =
     ''Error: Missing or invalid workout parameters. Please check exercise name, weight, reps, and set number.''"

definition logged_text :: "env \<Rightarrow> pyval \<Rightarrow> pyval \<Rightarrow> pyval \<Rightarrow> pyval \<Rightarrow> pyval \<Rightarrow> string" where
  "logged_text E date_str exercise weight reps sets =
     ''Successfully logged Set '' @ py_str E sets @ '' of '' @ py_str E exercise @ '' ('' @
     py_str E weight @ ''kg x '' @ py_str E reps @ '' reps) for '' @ py_str E date_str @ ''.''"

definition workout_row :: "pyval \<Rightarrow> pyval \<Rightarrow> pyval \<Rightarrow> pyval \<Rightarrow> pyval \<Rightarrow> row" where
  "workout_row date_str exercise weight reps sets =
     [(''workout_date'', date_str), (''exercise_name'', exercise), (''weight_kg'', weight),
      (''repetitions'', reps), (''sets'', sets)]"

definition log_gym_set ::
  "env \<Rightarrow> pyval \<Rightarrow> pyval \<Rightarrow> pyval \<Rightarrow> pyval \<Rightarrow> pyval \<Rightarrow> world \<Rightarrow> string \<times> world" where
  "log_gym_set E date_str exercise weight reps sets w =
     (case parse_date E date_str of
        Inl e \<Rightarrow> (internal_error, w)
      | Inr d \<Rightarrow>
          (case valid_params exercise weight reps sets of
             Inl e \<Rightarrow> (internal_error, w)
           | Inr False \<Rightarrow> (invalid_parameters, w)
           | Inr True \<Rightarrow>
               (case execute_insert (workout_row date_str exercise weight reps sets) w of
                  (Inl e, w') \<Rightarrow> (internal_error, w')
                | (Inr (Some err), w') \<Rightarrow> (''Error: Failed to insert set. Details: '' @ err, w')
                | (Inr None, w') \<Rightarrow> (logged_text E date_str exercise weight reps sets, w'))))"

subsection \<open>\<^verbatim>\<open>get_readiness_report\<close>\<close>

text \<open>
  Lines 179 to 185: the end of the window. A missing, empty or unparseable
  \<^verbatim>\<open>end_date\<close> gives today.
\<close>

definition window_end :: "env \<Rightarrow> pyval \<Rightarrow> date" where
  "window_end E end_date =
     (if truthy end_date
      then (case parse_date E end_date of Inr d \<Rightarrow> d | Inl e \<Rightarrow> today E)
      else today E)"

text \<open>
  Lines 187 to 193: the start of the window. The subtraction of three days stands in
  the \<^verbatim>\<open>try\<close> block and again in its bare \<^verbatim>\<open>except\<close> handler; when it
  raises in the handler, nothing catches it.
\<close>

definition window_start :: "env \<Rightarrow> pyval \<Rightarrow> date \<Rightarrow> date res" where
  "window_start E start_date end =
     (case (if truthy start_date then parse_date E start_date else minus_days end 3) of
        Inr d \<Rightarrow> Inr d
      | Inl e \<Rightarrow> minus_days end 3)"

definition report_header :: "date \<Rightarrow> date \<Rightarrow> string" where
  "report_header start end =
     ''--- HEALTH READINESS REPORT ('' @ isoformat start @ '' to '' @ isoformat end @ '') ---\<newline>''"

definition no_data_sentinel :: string where
  "no_data_sentinel = ''No recent Oura or manual workout data found to generate advice.''"

text \<open>
  A \<^verbatim>\<open>for\<close> loop that appends one line per record to the report and stops at
  the first record whose line raises.
\<close>

fun report_lines :: "(row \<Rightarrow> string res) \<Rightarrow> row list \<Rightarrow> string res" where
  "report_lines f [] = Inr []"
| "report_lines f (record # records) =
     (case f record of
        Inl e \<Rightarrow> Inl e
      | Inr line \<Rightarrow> (case report_lines f records of Inl e \<Rightarrow> Inl e | Inr rest \<Rightarrow> Inr (line @ rest)))"

text \<open>Lines 209 to 212.\<close>

definition sleep_line :: "env \<Rightarrow> row \<Rightarrow> string res" where
  "sleep_line E record =
     (case hours_minutes (dict_get record ''total_sleep_duration'' (PInt 0)) of
        Inl e \<Rightarrow> Inl e
      | Inr (hours, minutes) \<Rightarrow>
          (case dict_item record ''day'' of
             Inl e \<Rightarrow> Inl e
           | Inr day \<Rightarrow>
               Inr ('' - '' @ py_str E day @ '': Score '' @
                    py_str E (dict_get record ''score'' (PStr ''N/A'')) @
                    '', Duration '' @ py_str E hours @ ''h '' @ py_str E minutes @
                    ''m, Efficiency '' @ py_str E (dict_get record ''efficiency'' (PStr ''N/A'')) @
                    ''%\<newline>'')))"

text \<open>Lines 206 to 214.\<close>

definition sleep_section :: "env \<Rightarrow> row list \<Rightarrow> string res" where
  "sleep_section E data =
     (if data \<noteq> []
      then (case report_lines (sleep_line E) data of
              Inl e \<Rightarrow> Inl e
            | Inr ls \<Rightarrow> Inr (''\<newline>SLEEP SUMMARY:\<newline>'' @ ls))
      else Inr ''\<newline>SLEEP SUMMARY: No data available\<newline>'')"

text \<open>Line 220.\<close>

definition activity_line :: "env \<Rightarrow> row \<Rightarrow> string res" where
  "activity_line E record =
     (case dict_item record ''day'' of
        Inl e \<Rightarrow> Inl e
      | Inr day \<Rightarrow>
          (case fmt_comma E (dict_get record ''steps'' (PInt 0)) of
             Inl e \<Rightarrow> Inl e
           | Inr steps \<Rightarrow>
               Inr ('' - '' @ py_str E day @ '': Steps '' @ steps @ '', Calories '' @
                    py_str E (dict_get record ''active_calories'' (PStr ''N/A'')) @ '', Score '' @
                    py_str E (dict_get record ''score'' (PStr ''N/A'')) @ ''\<newline>'')))"

text \<open>Lines 217 to 222.\<close>

definition activity_section :: "env \<Rightarrow> row list \<Rightarrow> string res" where
  "activity_section E data =
     (if data \<noteq> []
      then (case report_lines (activity_line E) data of
              Inl e \<Rightarrow> Inl e
            | Inr ls \<Rightarrow> Inr (''\<newline>ACTIVITY SUMMARY:\<newline>'' @ ls))
      else Inr ''\<newline>ACTIVITY SUMMARY: No data available\<newline>'')"

text \<open>
  Lines 228 to 237: the dictionary \<^verbatim>\<open>exercises\<close>, from exercise name to the
  dictionary \<^verbatim>\<open>{'weight', 'reps', 'date'}\<close> of the retained record. One pass of
  the loop body:
\<close>

definition max_lift_step :: "row \<Rightarrow> (pyval \<times> row) list \<Rightarrow> (pyval \<times> row) list res" where
  "max_lift_step record exercises =
     (case dict_item record ''exercise_name'' of
        Inl e \<Rightarrow> Inl e
      | Inr ex_name \<Rightarrow>
          (let weight = dict_get record ''weight_kg'' (PInt 0) in
           case (case map_of exercises ex_name of
                   None \<Rightarrow> Inr True
                 | Some kept \<Rightarrow>
                     (case dict_item kept ''weight'' of
                        Inl e \<Rightarrow> Inl e
                      | Inr w \<Rightarrow> py_gt weight w)) of
             Inl e \<Rightarrow> Inl e
           | Inr False \<Rightarrow> Inr exercises
           | Inr True \<Rightarrow>
               (case dict_item record ''workout_date'' of
                  Inl e \<Rightarrow> Inl e
                | Inr d \<Rightarrow>
                    Inr (dict_set ex_name
                           [(''weight'', weight),
                            (''reps'', dict_get record ''repetitions'' (PInt 0)),
                            (''date'', d)]
                           exercises))))"

fun max_lifts :: "row list \<Rightarrow> (pyval \<times> row) list \<Rightarrow> (pyval \<times> row) list res" where
  "max_lifts [] exercises = Inr exercises"
| "max_lifts (record # records) exercises =
     (case max_lift_step record exercises of
        Inl e \<Rightarrow> Inl e
      | Inr exercises' \<Rightarrow> max_lifts records exercises')"

text \<open>Line 240.\<close>

definition lift_line :: "env \<Rightarrow> pyval \<times> row \<Rightarrow> string res" where
  "lift_line E item =
     (case item of (ex_name, data) \<Rightarrow>
        (case dict_item data ''weight'' of
           Inl e \<Rightarrow> Inl e
         | Inr w \<Rightarrow>
             (case dict_item data ''reps'' of
                Inl e \<Rightarrow> Inl e
              | Inr r \<Rightarrow>
                  (case dict_item data ''date'' of
                     Inl e \<Rightarrow> Inl e
                   | Inr d \<Rightarrow>
                       Inr ('' - '' @ py_str E ex_name @ '': Max '' @ py_str E w @ ''kg x '' @
                            py_str E r @ '' reps on '' @ py_str E d @ ''\<newline>'')))))"

fun lift_lines :: "env \<Rightarrow> (pyval \<times> row) list \<Rightarrow> string res" where
  "lift_lines E [] = Inr []"
| "lift_lines E (item # items) =
     (case lift_line E item of
        Inl e \<Rightarrow> Inl e
      | Inr line \<Rightarrow> (case lift_lines E items of Inl e \<Rightarrow> Inl e | Inr rest \<Rightarrow> Inr (line @ rest)))"

text \<open>Lines 225 to 242.\<close>

definition workout_section :: "env \<Rightarrow> row list \<Rightarrow> string res" where
  "workout_section E data =
     (if data \<noteq> []
      then (case max_lifts data [] of
              Inl e \<Rightarrow> Inl e
            | Inr exercises \<Rightarrow>
                (case lift_lines E exercises of
                   Inl e \<Rightarrow> Inl e
                 | Inr ls \<Rightarrow> Inr (''\<newline>RECENT WORKOUTS:\<newline>'' @ ls)))
      else Inr ''\<newline>RECENT WORKOUTS: No data available\<newline>'')"

text \<open>
  Lines 203 to 247: the report from the three responses. The last test compares the
  finished report with the header alone.
\<close>

definition build_report :: "env \<Rightarrow> date \<Rightarrow> date \<Rightarrow> row list \<Rightarrow> row list \<Rightarrow> row list \<Rightarrow> string res" where
  "build_report E start end sleep_data activity_data workout_data =
     (case sleep_section E sleep_data of
        Inl e \<Rightarrow> Inl e
      | Inr s1 \<Rightarrow>
          (case activity_section E activity_data of
             Inl e \<Rightarrow> Inl e
           | Inr s2 \<Rightarrow>
               (case workout_section E workout_data of
                  Inl e \<Rightarrow> Inl e
                | Inr s3 \<Rightarrow>
                    (let report = report_header start end @ s1 @ s2 @ s3 in
                     if report = report_header start end then Inr no_data_sentinel
                     else Inr report))))"

definition report_error :: "string \<Rightarrow> string" where
  "report_error e = ''An error occurred while accessing the aggregated data for the report: '' @ e"

text \<open>Lines 195 to 252: the three queries, then the report; every exception becomes a string.\<close>

definition readiness_report :: "env \<Rightarrow> date \<Rightarrow> date \<Rightarrow> world \<Rightarrow> string \<times> world" where
  "readiness_report E start end w =
     (case execute_select ''oura_sleep'' [''day'', ''score'', ''total_sleep_duration'', ''efficiency'']
             (in_range ''day'' (isoformat start) (isoformat end)) (order_desc ''day'') w of
        (Inl e, w1) \<Rightarrow> (report_error e, w1)
      | (Inr sleep_data, w1) \<Rightarrow>
          (case execute_select ''oura_activity'' [''day'', ''steps'', ''active_calories'', ''score'']
                  (in_range ''day'' (isoformat start) (isoformat end)) (order_desc ''day'') w1 of
             (Inl e, w2) \<Rightarrow> (report_error e, w2)
           | (Inr activity_data, w2) \<Rightarrow>
               (case execute_select ''manual_workouts''
                       [''workout_date'', ''exercise_name'', ''weight_kg'', ''repetitions'', ''sets'']
                       (in_range ''workout_date'' (isoformat start) (isoformat end))
                       (order_desc ''workout_date'') w2 of
                  (Inl e, w3) \<Rightarrow> (report_error e, w3)
                | (Inr workout_data, w3) \<Rightarrow>
                    (case build_report E start end sleep_data activity_data workout_data of
                       Inl e \<Rightarrow> (report_error e, w3)
                     | Inr report \<Rightarrow> (report, w3)))))"

text \<open>The whole tool: the only exception that leaves it is the one of \<open>window_start\<close>.\<close>

definition get_readiness_report :: "env \<Rightarrow> pyval \<Rightarrow> pyval \<Rightarrow> world \<Rightarrow> string res \<times> world" where
  "get_readiness_report E start_date end_date w =
     (if \<not> supabase_available E then (Inr ''Database connection not available.'', w)
      else
        let end = window_end E end_date in
        case window_start E start_date end of
          Inl e \<Rightarrow> (Inl e, w)
        | Inr start \<Rightarrow>
            (case readiness_report E start end w of (report, w') \<Rightarrow> (Inr report, w')))"

section \<open>The user profile\<close>

text \<open>
  What start-up finds at \<^verbatim>\<open>polar_token.json\<close>: no file (or one that cannot be
  opened), a file that is not JSON, a JSON object, or another JSON value (a list, a
  number, a string), on which \<^verbatim>\<open>.get\<close> raises AttributeError.
\<close>

datatype token_file = NoFile | NotJson | JsonObject row | JsonOther

text \<open>
  Lines 75 to 89. \<^verbatim>\<open>USER_PROFILE\<close> starts as the empty dictionary and is assigned
  only when the file was read and all four \<^verbatim>\<open>.get\<close> calls returned; the handler
  prints a warning and assigns nothing.
\<close>

definition load_user_profile :: "token_file \<Rightarrow> row" where
  "load_user_profile f =
     (case f of
        JsonObject polar_token_data \<Rightarrow>
          [(''age'', dict_get polar_token_data ''age'' (PInt 35)),
           (''weight'', dict_get polar_token_data ''weight'' (PInt 59)),
           (''height'', dict_get polar_token_data ''height'' (PInt 162)),
           (''gender'', dict_get polar_token_data ''gender'' (PStr ''FEMALE''))]
      | _ \<Rightarrow> [])"

section \<open>The tool registry\<close>

subsection \<open>Binding positional arguments\<close>

text \<open>
  \<^verbatim>\<open>tool_func.func(*args)\<close> binds the arguments to the parameters before the body
  runs, and raises TypeError when their number does not fit. The texts are the
  interpreter's.
\<close>

definition plural :: "nat \<Rightarrow> string" where
  "plural n = (if n = 1 then [] else ''s'')"

fun name_list :: "string list \<Rightarrow> string" where
  "name_list [] = []"
| "name_list [a] = quoted a"
| "name_list [a, b] = quoted a @ '' and '' @ quoted b"
| "name_list names = join '', '' (map quoted (butlast names)) @ '', and '' @ quoted (last names)"

definition missing_args :: "string \<Rightarrow> string list \<Rightarrow> string" where
  "missing_args fname names =
     fname @ ''() missing '' @ digits (length names) @ '' required positional argument'' @
     plural (length names) @ '': '' @ name_list names"

definition too_many_args :: "string \<Rightarrow> nat \<Rightarrow> nat \<Rightarrow> nat \<Rightarrow> string" where
  "too_many_args fname lo hi given =
     fname @ ''() takes '' @
     (if lo = hi then digits hi @ '' positional argument'' @ plural hi
      else ''from '' @ digits lo @ '' to '' @ digits hi @ '' positional arguments'') @
     '' but '' @ digits given @ (if given = 1 then '' was'' else '' were'') @ '' given''"

type_synonym func = "pyval list \<Rightarrow> world \<Rightarrow> string res \<times> world"

definition get_oura_sleep_score_func :: "env \<Rightarrow> func" where
  "get_oura_sleep_score_func E args w =
     (case args of
        [] \<Rightarrow> (Inl (missing_args ''get_oura_sleep_score'' [''day'']), w)
      | [day] \<Rightarrow> (case get_oura_sleep_score E day w of (s, w') \<Rightarrow> (Inr s, w'))
      | _ \<Rightarrow> (Inl (too_many_args ''get_oura_sleep_score'' 1 1 (length args)), w))"

definition get_oura_activity_steps_func :: "env \<Rightarrow> func" where
  "get_oura_activity_steps_func E args w =
     (case args of
        [] \<Rightarrow> (Inl (missing_args ''get_oura_activity_steps'' [''day'']), w)
      | [day] \<Rightarrow> (case get_oura_activity_steps E day w of (s, w') \<Rightarrow> (Inr s, w'))
      | _ \<Rightarrow> (Inl (too_many_args ''get_oura_activity_steps'' 1 1 (length args)), w))"

definition log_gym_set_func :: "env \<Rightarrow> func" where
  "log_gym_set_func E args w =
     (case args of
        [date_str, exercise, weight, reps, sets] \<Rightarrow>
          (case log_gym_set E date_str exercise weight reps sets w of (s, w') \<Rightarrow> (Inr s, w'))
      | _ \<Rightarrow>
          (if length args < 5
           then (Inl (missing_args ''log_gym_set''
                        (drop (length args) [''date_str'', ''exercise'', ''weight'', ''reps'', ''sets''])), w)
           else (Inl (too_many_args ''log_gym_set'' 5 5 (length args)), w)))"

definition get_readiness_report_func :: "env \<Rightarrow> func" where
  "get_readiness_report_func E args w =
     (case args of
        [] \<Rightarrow> get_readiness_report E PNone PNone w
      | [start_date] \<Rightarrow> get_readiness_report E start_date PNone w
      | [start_date, end_date] \<Rightarrow> get_readiness_report E start_date end_date w
      | _ \<Rightarrow> (Inl (too_many_args ''get_readiness_report'' 0 2 (length args)), w))"

subsection \<open>\<^verbatim>\<open>tools_dict\<close>\<close>

text \<open>
  A registered tool: its name, its description (the function's docstring, as the
  \<^verbatim>\<open>@tool\<close> decorator keeps it, without the surrounding blank space) and its
  function. The tools are defined, and the dictionary filled, only when the store
  client could be created.
\<close>

record tool =
  t_name :: string
  t_description :: string
  t_func :: func

definition tools_dict :: "env \<Rightarrow> (string \<times> tool) list" where
  "tools_dict E =
     (if supabase_available E then
        [(''get_oura_sleep_score'',
          \<lparr>t_name = ''get_oura_sleep_score'',
           t_description = ''Retrieves the Oura sleep score and details for a specific date (YYYY-MM-DD).'',
           t_func = get_oura_sleep_score_func E\<rparr>),
         (''get_oura_activity_steps'',
          \<lparr>t_name = ''get_oura_activity_steps'',
           t_description = ''Retrieves total steps and active calories for a specific date (YYYY-MM-DD).'',
           t_func = get_oura_activity_steps_func E\<rparr>),
         (''log_gym_set'',
          \<lparr>t_name = ''log_gym_set'',
           t_description =
             ''Logs a single set of a gym workout. Input requires date (YYYY-MM-DD), exercise name (text), weight (float), repetitions (int), and set number (int).'' @
             ''\<newline>Example: date_str='2025-10-25', exercise='Squat', weight=100.0, reps=5, sets=3'',
           t_func = log_gym_set_func E\<rparr>),
         (''get_readiness_report'',
          \<lparr>t_name = ''get_readiness_report'',
           t_description =
             ''Gathers a summary of recent sleep, steps, and maximal lifts for training advice.'' @
             ''\<newline>Automatically looks at the last 3 days if no dates are specified.'',
           t_func = get_readiness_report_func E\<rparr>)]
      else [])"

section \<open>\<^verbatim>\<open>process_query\<close>\<close>

subsection \<open>The decision prompt\<close>

text \<open>
  \<^verbatim>\<open>s.splitlines()[0]\<close> of a non-empty text: the characters before the first line
  boundary.
\<close>

definition is_linebreak :: "char \<Rightarrow> bool" where
  "is_linebreak c = (let n = (of_char c :: nat) in (10 \<le> n \<and> n \<le> 13) \<or> (28 \<le> n \<and> n \<le> 30) \<or> n = 133)"

definition first_line :: "string \<Rightarrow> string" where
  "first_line s = takeWhile (\<lambda>c. \<not> is_linebreak c) s"

text \<open>Line 273.\<close>

definition tools_desc :: "env \<Rightarrow> string" where
  "tools_desc E =
     join ''\<newline>''
       (map (\<lambda>(k, t). ''- '' @ t_name t @ '': '' @ strip (first_line (t_description t))) (tools_dict E))"

text \<open>Lines 275 to 300.\<close>

definition decision_prompt :: "env \<Rightarrow> date \<Rightarrow> string \<Rightarrow> string" where
  \<open>decision_prompt E yesterday user_query =
     ''You are a health assistant and decision-maker. Your sole task is to determine the appropriate action based on the user's request.\<newline>'' @
     ''\<newline>'' @
     ''    Available tools:\<newline>'' @
     ''    '' @ tools_desc E @ ''\<newline>'' @
     ''    \<newline>'' @
     ''    Current Date Context:\<newline>'' @
     ''    - Today's date: '' @ isoformat (today E) @ ''\<newline>'' @
     ''    - Yesterday's date: '' @ isoformat yesterday @ ''\<newline>'' @
     ''\<newline>'' @
     ''    User Request: "'' @ user_query @ ''"\<newline>'' @
     ''\<newline>'' @
     ''    ---\<newline>'' @
     ''    Decide ONLY ONE of the following actions. DO NOT include any extra text.\<newline>'' @
     ''\<newline>'' @
     ''    ACTION: TOOL_CALL | <tool_name> | <tool_input_1> | <tool_input_2> ...\<newline>'' @
     ''    ACTION: DIRECT_ANSWER | <Your natural language response>\<newline>'' @
     ''\<newline>'' @
     ''    If the request is a simple greeting (e.g., 'hi'), or non-data related, use DIRECT_ANSWER.\<newline>'' @
     ''    If the tool needs a date but the user says 'yesterday', use the exact date '' @
       isoformat yesterday @ ''.\<newline>'' @
     ''\<newline>'' @
     ''    Example Output 1 (Log): ACTION: TOOL_CALL | log_gym_set | '' @ isoformat (today E) @
       '' | Bench Press | 80.5 | 5 | 1\<newline>'' @
     ''    Example Output 2 (Query): ACTION: TOOL_CALL | get_oura_sleep_score | '' @
       isoformat yesterday @ ''\<newline>'' @
     ''    Example Output 3 (Greeting): ACTION: DIRECT_ANSWER | Hello there! How can I help you check your metrics today?\<newline>'' @
     ''\<newline>'' @
     ''    Your concise response (start immediately with ACTION: TOOL_CALL or ACTION: DIRECT_ANSWER):\<newline>'' @
     ''    ''\<close>

subsection \<open>Dispatch\<close>

text \<open>\<^verbatim>\<open>xs[i]\<close> for an index that is not negative.\<close>

definition list_item :: "'a list \<Rightarrow> nat \<Rightarrow> 'a res" where
  "list_item xs i = (if i < length xs then Inr (xs ! i) else Inl ''list index out of range'')"

text \<open>
  Lines 328 to 334: the list \<^verbatim>\<open>typed_inputs\<close>, its five elements evaluated in
  order.
\<close>

definition typed_inputs :: "env \<Rightarrow> string list \<Rightarrow> pyval list res" where
  "typed_inputs E tool_inputs =
     (case list_item tool_inputs 0 of
        Inl e \<Rightarrow> Inl e
      | Inr date_str \<Rightarrow>
     (case list_item tool_inputs 1 of
        Inl e \<Rightarrow> Inl e
      | Inr exercise \<Rightarrow>
     (case list_item tool_inputs 2 of
        Inl e \<Rightarrow> Inl e
      | Inr s2 \<Rightarrow>
     (case float_of_str E s2 of
        Inl e \<Rightarrow> Inl e
      | Inr weight \<Rightarrow>
     (case list_item tool_inputs 3 of
        Inl e \<Rightarrow> Inl e
      | Inr s3 \<Rightarrow>
     (case int_of_str E s3 of
        Inl e \<Rightarrow> Inl e
      | Inr reps \<Rightarrow>
     (case list_item tool_inputs 4 of
        Inl e \<Rightarrow> Inl e
      | Inr s4 \<Rightarrow>
     (case int_of_str E s4 of
        Inl e \<Rightarrow> Inl e
      | Inr sets \<Rightarrow>
          Inr [PStr date_str, PStr exercise, PFloat weight, PInt reps, PInt sets]))))))))"

text \<open>One call \<^verbatim>\<open>tool_func.func(*args)\<close>, entered in the log.\<close>

definition call :: "string \<Rightarrow> tool \<Rightarrow> pyval list \<Rightarrow> world \<Rightarrow> string res \<times> world" where
  "call tool_name tool_func args w = t_func tool_func args (log_event (Invoke tool_name args) w)"

text \<open>
  Lines 326 to 346: the arguments of the call in the branch of the tool's name. The
  fields are the trimmed ones, empty fields included.
\<close>

definition branch_inputs :: "env \<Rightarrow> string \<Rightarrow> string list \<Rightarrow> pyval list res" where
  "branch_inputs E tool_name tool_inputs =
     (if tool_name = ''log_gym_set'' then typed_inputs E tool_inputs
      else if tool_name = ''get_readiness_report'' then
        (if length tool_inputs \<ge> 2 then Inr [PStr (tool_inputs ! 0), PStr (tool_inputs ! 1)]
         else if length tool_inputs = 1 then Inr [PStr (tool_inputs ! 0)]
         else Inr [])
      else Inr (map PStr tool_inputs))"

text \<open>
  Lines 321 to 346: from the trimmed input fields to \<^verbatim>\<open>tool_result\<close>. The tool is
  called with the non-empty fields (line 323), and then again in the branch of its
  name, where the result is assigned a second time.
\<close>

definition dispatch :: "env \<Rightarrow> string \<Rightarrow> tool \<Rightarrow> string list \<Rightarrow> world \<Rightarrow> string res \<times> world" where
  "dispatch E tool_name tool_func tool_inputs w =
     (let clean_tool_inputs = filter (\<lambda>i. i \<noteq> []) tool_inputs in
      case call tool_name tool_func (map PStr clean_tool_inputs) w of
        (Inl e, w1) \<Rightarrow> (Inl e, w1)
      | (Inr tool_result, w1) \<Rightarrow>
          (case branch_inputs E tool_name tool_inputs of
             Inl e \<Rightarrow> (Inl e, w1)
           | Inr inputs \<Rightarrow> call tool_name tool_func inputs w1))"

subsection \<open>Synthesis\<close>

text \<open>Lines 351 to 358; \<^verbatim>\<open>USER_PROFILE['age']\<close> raises KeyError when the key is missing.\<close>

definition coaching_instruction :: "env \<Rightarrow> string \<Rightarrow> string res" where
  "coaching_instruction E tool_name =
     (if tool_name = ''get_readiness_report'' then
        (case dict_item (USER_PROFILE E) ''age'' of
           Inl e \<Rightarrow> Inl e
         | Inr age \<Rightarrow>
        (case dict_item (USER_PROFILE E) ''weight'' of
           Inl e \<Rightarrow> Inl e
         | Inr weight \<Rightarrow>
        (case dict_item (USER_PROFILE E) ''height'' of
           Inl e \<Rightarrow> Inl e
         | Inr height \<Rightarrow>
             Inr (''\<newline>USER PROFILE: Age '' @ py_str E age @ '', Weight '' @ py_str E weight @
                  ''kg, Height '' @ py_str E height @ ''cm. '' @
                  ''\<newline>Use the data and this profile information to provide specific, actionable training advice: '' @
                  ''1. Suggest a good training intensity (e.g., heavy, light, or rest day). 2. Recommend a focus (e.g., recovery or volume). '' @
                  ''3. Base advice on low sleep scores (<70) or low total sleep duration (<7h) indicating a strong need for recovery.''))))
      else Inr [])"

text \<open>Lines 360 to 364.\<close>

definition format_prompt :: "string \<Rightarrow> string \<Rightarrow> string \<Rightarrow> string" where
  \<open>format_prompt tool_result user_query coaching =
     ''Based on this data:\<newline>'' @
     tool_result @ ''\<newline>'' @
     ''Provide a friendly, natural, conversational answer to the user request: "'' @ user_query @ ''"\<newline>'' @
     coaching @ ''\<newline>'' @
     ''Be concise, warm, and helpful. Do not mention the word 'tool' or 'database'. Just give a natural response.''\<close>

text \<open>Lines 351 to 366: the second completion request, whose answer is returned as it is.\<close>

definition synthesize ::
  "env \<Rightarrow> (string \<Rightarrow> string list \<Rightarrow> string res) \<Rightarrow> string \<Rightarrow> string \<Rightarrow> string \<Rightarrow> world \<Rightarrow> string res \<times> world" where
  "synthesize E invoke user_query tool_name tool_result w =
     (case coaching_instruction E tool_name of
        Inl e \<Rightarrow> (Inl e, w)
      | Inr coaching \<Rightarrow>
          (let prompt = format_prompt tool_result user_query coaching
           in (invoke prompt [], log_event (Completion prompt) w)))"

subsection \<open>The two stages\<close>

definition tool_not_found :: "string \<Rightarrow> string" where
  "tool_not_found tool_name = ''Error: Tool '' @ quoted tool_name @ '' not found.''"

text \<open>Lines 312 to 314: the tool name and the trimmed input fields.\<close>

definition parse_tool_call :: "string \<Rightarrow> (string \<times> string list) res" where
  "parse_tool_call decision =
     (let parts = split_on CHR ''|'' decision in
      case list_item parts 1 of
        Inl e \<Rightarrow> Inl e
      | Inr p1 \<Rightarrow> Inr (strip p1, map strip (drop 2 parts)))"

text \<open>
  Lines 311 to 366, the body of the inner \<^verbatim>\<open>try\<close>: \<open>Inl\<close> is an exception on
  its way to the handler of line 368.
\<close>

definition tool_call ::
  "env \<Rightarrow> (string \<Rightarrow> string list \<Rightarrow> string res) \<Rightarrow> string \<Rightarrow> string \<Rightarrow> world \<Rightarrow> string res \<times> world" where
  "tool_call E invoke user_query decision w =
     (case parse_tool_call decision of
        Inl e \<Rightarrow> (Inl e, w)
      | Inr (tool_name, tool_inputs) \<Rightarrow>
          (case map_of (tools_dict E) tool_name of
             None \<Rightarrow> (Inr (tool_not_found tool_name), w)
           | Some tool_func \<Rightarrow>
               (case dispatch E tool_name tool_func tool_inputs w of
                  (Inl e, w1) \<Rightarrow> (Inl e, w1)
                | (Inr tool_result, w1) \<Rightarrow>
                    synthesize E invoke user_query tool_name tool_result w1)))"

definition execution_error :: "string \<Rightarrow> string" where
  "execution_error e =
     ''Sorry, I ran into an error trying to execute the action. Please check the date format or simplify your request. Error: '' @ e"

definition malformed_decision :: string where
  "malformed_decision =
     ''Sorry, I couldn't understand the AI's response format. Try asking a specific question about sleep, activity, or logging a set.''"

text \<open>
  Lines 309 to 379: what is done with the decision. The handler of line 368 turns
  every exception of the inner \<^verbatim>\<open>try\<close> into a reply, so this stage returns a
  string.
\<close>

definition execution_stage ::
  "env \<Rightarrow> (string \<Rightarrow> string list \<Rightarrow> string res) \<Rightarrow> string \<Rightarrow> string \<Rightarrow> world \<Rightarrow> string \<times> world" where
  "execution_stage E invoke user_query decision w =
     (if startswith decision ''ACTION: TOOL_CALL'' then
        (case tool_call E invoke user_query decision w of
           (Inl e, w1) \<Rightarrow> (execution_error e, w1)
         | (Inr reply, w1) \<Rightarrow> (reply, w1))
      else if startswith decision ''ACTION: DIRECT_ANSWER'' then
        (strip (delete_all ''ACTION: DIRECT_ANSWER |'' decision), w)
      else (malformed_decision, w))"

text \<open>
  Lines 264 to 384. The subtraction that gives yesterday stands before the outer
  \<^verbatim>\<open>try\<close>: when it raises, the exception leaves the function. A failure of the
  decision request is caught by the handler of line 381.
\<close>

definition process_query :: "env \<Rightarrow> string \<Rightarrow> world \<Rightarrow> string res \<times> world" where
  "process_query E user_query w =
     (case llm E of
        None \<Rightarrow> (Inr ''AI model is not running. Please start Ollama.'', w)
      | Some invoke \<Rightarrow>
          (case minus_days (today E) 1 of
             Inl e \<Rightarrow> (Inl e, w)
           | Inr yesterday \<Rightarrow>
               (let prompt = decision_prompt E yesterday user_query;
                    w0 = log_event (Completion prompt) w
                in case invoke prompt [''\<newline>''] of
                     Inl e \<Rightarrow> (Inr (''Sorry, I encountered a critical error: '' @ e), w0)
                   | Inr completion \<Rightarrow>
                       (case execution_stage E invoke user_query (strip completion) w0 of
                          (reply, w1) \<Rightarrow> (Inr reply, w1)))))"

section \<open>A sample environment\<close>

text \<open>
  Concrete library functions, a scripted completion service and small stores, on which
  the definitions above can be run. The parsers accept the plain forms only
  (\<^verbatim>\<open>YYYY-MM-DD\<close>, an optional sign and decimal digits, at most one decimal
  point) and the printer writes a float as its digits with a decimal point; Python's
  functions accept and print more forms, which the general theorems cover because they
  hold for every environment.
\<close>

definition is_digit :: "char \<Rightarrow> bool" where
  "is_digit c = (let n = (of_char c :: nat) in 48 \<le> n \<and> n \<le> 57)"

definition nat_of_digits :: "string \<Rightarrow> nat" where
  "nat_of_digits s = foldl (\<lambda>a c. 10 * a + (of_char c - 48)) 0 s"

definition fromisoformat_plain :: "string \<Rightarrow> date res" where
  "fromisoformat_plain s =
     (if length s = 10 \<and> s ! 4 = CHR ''-'' \<and> s ! 7 = CHR ''-'' \<and>
         list_all is_digit (take 4 s @ take 2 (drop 5 s) @ drop 8 s)
      then (let y = nat_of_digits (take 4 s);
                m = nat_of_digits (take 2 (drop 5 s));
                d = nat_of_digits (drop 8 s)
            in if y = 0 then Inl ''year 0 is out of range''
               else if m < 1 \<or> 12 < m then Inl ''month must be in 1..12''
               else if d < 1 \<or> days_in_month y m < d then Inl ''day is out of range for month''
               else Inr (ymd2ord y m d))
      else Inl (''Invalid isoformat string: '' @ quoted s))"

definition unsigned :: "string \<Rightarrow> string" where
  "unsigned s = (case s of c # cs \<Rightarrow> (if c = CHR ''-'' \<or> c = CHR ''+'' then cs else s) | [] \<Rightarrow> [])"

definition negative :: "string \<Rightarrow> bool" where
  "negative s = (case s of c # cs \<Rightarrow> c = CHR ''-'' | [] \<Rightarrow> False)"

definition int_plain :: "string \<Rightarrow> int res" where
  "int_plain s =
     (let ds = unsigned s in
      if ds \<noteq> [] \<and> list_all is_digit ds
      then Inr (if negative s then - int (nat_of_digits ds) else int (nat_of_digits ds))
      else Inl (''invalid literal for int() with base 10: '' @ quoted s))"

definition float_plain :: "string \<Rightarrow> rat res" where
  "float_plain s =
     (let ds = unsigned s;
          ip = takeWhile (\<lambda>c. c \<noteq> CHR ''.'') ds;
          fp = drop 1 (dropWhile (\<lambda>c. c \<noteq> CHR ''.'') ds)
      in if (ip \<noteq> [] \<or> fp \<noteq> []) \<and> list_all is_digit ip \<and> list_all is_digit fp
         then (let v = of_nat (nat_of_digits ip) + of_nat (nat_of_digits fp) / 10 ^ length fp
               in Inr (if negative s then - v else v))
         else Inl (''could not convert string to float: '' @ quoted s))"

fun frac_digits :: "nat \<Rightarrow> rat \<Rightarrow> string" where
  "frac_digits 0 r = []"
| "frac_digits (Suc k) r =
     (if r = 0 then []
      else digit (nat \<lfloor>r * 10\<rfloor>) # frac_digits k (r * 10 - of_int \<lfloor>r * 10\<rfloor>))"

definition float_text :: "(string \<Rightarrow> string) \<Rightarrow> rat \<Rightarrow> string" where
  "float_text grouping r =
     (let a = \<bar>r\<bar>; f = frac_digits 17 (a - of_int \<lfloor>a\<rfloor>)
      in (if r < 0 then ''-'' else []) @ grouping (digits (nat \<lfloor>a\<rfloor>)) @ ''.'' @
         (if f = [] then ''0'' else f))"

text \<open>
  The scripted service: the answer \<open>decision\<close> to a request with the stop sequence of
  the decision stage, the answer \<open>reply\<close> to any other request. Either may be a
  failure.
\<close>

definition scripted :: "string res \<Rightarrow> string res \<Rightarrow> string \<Rightarrow> string list \<Rightarrow> string res" where
  "scripted decision reply prompt stop = (if stop = [''\<newline>''] then decision else reply)"

text \<open>The day is 2025-10-26; the profile file holds an empty JSON object.\<close>

definition sample_env :: "string res \<Rightarrow> string res \<Rightarrow> env" where
  "sample_env decision reply =
     \<lparr>today = 739550,
      llm = Some (scripted decision reply),
      supabase_available = True,
      USER_PROFILE = load_user_profile (JsonObject []),
      fromisoformat = fromisoformat_plain,
      float_of_str = float_plain,
      int_of_str = int_plain,
      repr_float = float_text (\<lambda>ds. ds),
      comma_float = float_text group3\<rparr>"

definition empty_world :: world where
  "empty_world = \<lparr>oura_sleep = [], oura_activity = [], manual_workouts = [], db = DbUp, events = []\<rparr>"

definition sample_world :: world where
  "sample_world =
     \<lparr>oura_sleep =
        [[(''day'', PStr ''2025-10-24''), (''score'', PInt 74), (''total_sleep_duration'', PInt 24300),
          (''efficiency'', PInt 88)],
         [(''day'', PStr ''2025-10-25''), (''score'', PInt 82), (''total_sleep_duration'', PInt 27000),
          (''efficiency'', PInt 91)]],
      oura_activity =
        [[(''day'', PStr ''2025-10-25''), (''steps'', PInt 10432), (''active_calories'', PInt 512),
          (''score'', PInt 85)]],
      manual_workouts =
        [[(''workout_date'', PStr ''2025-10-24''), (''exercise_name'', PStr ''Bench Press''),
          (''weight_kg'', PInt 100), (''repetitions'', PInt 3), (''sets'', PInt 1)],
         [(''workout_date'', PStr ''2025-10-25''), (''exercise_name'', PStr ''Bench Press''),
          (''weight_kg'', PInt 80), (''repetitions'', PInt 5), (''sets'', PInt 1)]],
      db = DbUp,
      events = []\<rparr>"

section \<open>Notions used in the statements\<close>

text \<open>
  A date argument is missing when it is \<^verbatim>\<open>None\<close> or empty (the tool tests it for
  truth), and unparseable when \<^verbatim>\<open>date.fromisoformat\<close> raises on it.
\<close>

definition missing_or_unparseable :: "env \<Rightarrow> pyval \<Rightarrow> bool" where
  "missing_or_unparseable E v = (\<not> truthy v \<or> isl (parse_date E v))"

text \<open>The calls to the outside that a run has logged, by kind.\<close>

fun is_completion :: "event \<Rightarrow> bool" where
  "is_completion (Completion p) = True"
| "is_completion e = False"

fun is_round_trip :: "event \<Rightarrow> bool" where
  "is_round_trip (Select t) = True"
| "is_round_trip (Insert t) = True"
| "is_round_trip e = False"

fun is_invoke :: "event \<Rightarrow> bool" where
  "is_invoke (Invoke n args) = True"
| "is_invoke e = False"

definition completions :: "world \<Rightarrow> nat" where
  "completions w = length (filter is_completion (events w))"

definition round_trips :: "world \<Rightarrow> nat" where
  "round_trips w = length (filter is_round_trip (events w))"

definition invocations :: "world \<Rightarrow> nat" where
  "invocations w = length (filter is_invoke (events w))"

text \<open>
  A step from \<open>w\<close> to \<open>w'\<close> that makes at most \<open>n\<close> round trips to the store and no
  other call to the outside.
\<close>

definition store_only :: "nat \<Rightarrow> world \<Rightarrow> world \<Rightarrow> bool" where
  "store_only n w w' =
     (completions w' = completions w \<and> invocations w' = invocations w \<and>
      round_trips w \<le> round_trips w' \<and> round_trips w' \<le> round_trips w + n)"

text \<open>The contents of the three tables.\<close>

definition tables :: "world \<Rightarrow> row list \<times> row list \<times> row list" where
  "tables w = (oura_sleep w, oura_activity w, manual_workouts w)"

text \<open>
  For a workout record: its exercise name, its weight as the program reads it and as
  a number, and the dictionary the aggregation keeps for it. A record is complete when
  it has a name, a date and a numeric weight, as every row of the table has unless a
  column is null.
\<close>

definition exercise_of :: "row \<Rightarrow> pyval" where
  "exercise_of r = dict_get r ''exercise_name'' PNone"

definition weight_val :: "row \<Rightarrow> pyval" where
  "weight_val r = dict_get r ''weight_kg'' (PInt 0)"

definition weight_of :: "row \<Rightarrow> rat" where
  "weight_of r = (case num_of (weight_val r) of Some x \<Rightarrow> x | None \<Rightarrow> 0)"

definition kept_entry :: "row \<Rightarrow> row" where
  "kept_entry r =
     [(''weight'', weight_val r),
      (''reps'', dict_get r ''repetitions'' (PInt 0)),
      (''date'', dict_get r ''workout_date'' PNone)]"

definition complete_record :: "row \<Rightarrow> bool" where
  "complete_record r =
     (map_of r ''exercise_name'' \<noteq> None \<and> map_of r ''workout_date'' \<noteq> None \<and>
      num_of (weight_val r) \<noteq> None)"

text \<open>
  In the words of the specification: among the records of one exercise, in the order
  they are processed, the first whose weight no other record of that exercise exceeds.
\<close>

definition heaviest_first :: "pyval \<Rightarrow> row list \<Rightarrow> row option" where
  "heaviest_first name records =
     (let named = filter (\<lambda>r. exercise_of r = name) records
      in find (\<lambda>r. list_all (\<lambda>x. weight_of x \<le> weight_of r) named) named)"

text \<open>
  A step from \<open>w\<close> to \<open>w'\<close> whose log is the log of \<open>w\<close> followed by round trips to
  the store only.
\<close>

definition store_trace :: "world \<Rightarrow> world \<Rightarrow> bool" where
  "store_trace w w' = (\<exists>evs. events w' = events w @ evs \<and> list_all is_round_trip evs)"

text \<open>
  A number greater than zero, and a call of \<^verbatim>\<open>log_gym_set\<close> that passes its
  checks: the date parses, the exercise is not empty and the three numbers are
  positive.
\<close>

definition positive :: "pyval \<Rightarrow> bool" where
  "positive v = (case num_of v of Some x \<Rightarrow> 0 < x | None \<Rightarrow> False)"

definition valid_set :: "env \<Rightarrow> pyval \<Rightarrow> pyval \<Rightarrow> pyval \<Rightarrow> pyval \<Rightarrow> pyval \<Rightarrow> bool" where
  "valid_set E date_str exercise weight reps sets =
     (\<not> isl (parse_date E date_str) \<and> truthy exercise \<and>
      positive weight \<and> positive reps \<and> positive sets)"

section \<open>Running the sample\<close>

text \<open>The calendar facts the sample runs need, each computed once.\<close>

lemmas date_defs = fromisoformat_plain_def is_digit_def nat_of_digits_def days_in_month_def
  DAYS_IN_MONTH_def ymd2ord_def days_before_year_def days_before_month_def
  DAYS_BEFORE_MONTH_def is_leap_def isoformat_def ord2ymd_def zpad_def digit_def

lemma parse_2025_10_25: "fromisoformat_plain ''2025-10-25'' = Inr 739549"
  by (simp add: date_defs Let_def)

lemma parse_2025_10_20: "fromisoformat_plain ''2025-10-20'' = Inr 739544"
  by (simp add: date_defs Let_def)

lemma parse_2025_12_31: "fromisoformat_plain ''2025-12-31'' = Inr 739616"
  by (simp add: date_defs Let_def)

lemma parse_2025_01_01: "fromisoformat_plain ''2025-01-01'' = Inr 739252"
  by (simp add: date_defs Let_def)

lemma parse_0001_01_02: "fromisoformat_plain ''0001-01-02'' = Inr 2"
  by (simp add: date_defs Let_def)

lemma parse_soon: "fromisoformat_plain ''soon'' = Inl (''Invalid isoformat string: '' @ quoted ''soon'')"
  by (simp add: fromisoformat_plain_def)

lemma iso_739550: "isoformat 739550 = ''2025-10-26''"
  by (simp add: date_defs digits.simps Let_def)

lemma iso_739549: "isoformat 739549 = ''2025-10-25''"
  by (simp add: date_defs digits.simps Let_def)

lemma iso_739547: "isoformat 739547 = ''2025-10-23''"
  by (simp add: date_defs digits.simps Let_def)

lemma iso_739616: "isoformat 739616 = ''2025-12-31''"
  by (simp add: date_defs digits.simps Let_def)

lemma iso_739252: "isoformat 739252 = ''2025-01-01''"
  by (simp add: date_defs digits.simps Let_def)

section \<open>The readiness report of an empty window\<close>

lemma build_report_empty:
  "build_report E start end [] [] [] =
     Inr (report_header start end @
          ''\<newline>SLEEP SUMMARY: No data available\<newline>'' @
          ''\<newline>ACTIVITY SUMMARY: No data available\<newline>'' @
          ''\<newline>RECENT WORKOUTS: No data available\<newline>'')"
  by (simp add: build_report_def sleep_section_def activity_section_def workout_section_def)

lemma header_not_sentinel: "report_header start end @ rest \<noteq> no_data_sentinel"
  by (simp add: report_header_def no_data_sentinel_def)

lemma build_report_never_sentinel:
  "build_report E start end sleep_data activity_data workout_data \<noteq> Inr no_data_sentinel"
proof -
  have s1: "sleep_section E sleep_data = Inr s \<Longrightarrow> s \<noteq> []" for s
    by (auto simp: sleep_section_def split: if_splits sum.splits)
  show ?thesis
    using s1 header_not_sentinel
    by (auto simp: build_report_def Let_def split: sum.splits)
qed

text \<open>
  C1. The claim: when the three queries of the window return no records,
  \<^verbatim>\<open>get_readiness_report\<close> returns the sentinel "No recent Oura or manual workout
  data found to generate advice.", and an empty section is rendered by its "No data
  available" line. In the code the second half holds and defeats the first: each of
  the three sections appends text to the report, so the comparison of the report with
  its header (line 244) is never true. For three empty responses the result is the
  header followed by the three placeholder lines, whatever the window; the sentinel is
  returned for no responses at all; and the tool, run on an empty store, returns the
  three-section text.
\<close>

theorem empty_window_returns_template:
  "build_report E start end [] [] [] =
     Inr (report_header start end @
          ''\<newline>SLEEP SUMMARY: No data available\<newline>'' @
          ''\<newline>ACTIVITY SUMMARY: No data available\<newline>'' @
          ''\<newline>RECENT WORKOUTS: No data available\<newline>'') \<and>
   build_report E start end sleep_data activity_data workout_data \<noteq> Inr no_data_sentinel \<and>
   fst (get_readiness_report (sample_env (Inr []) (Inr [])) PNone PNone empty_world) =
     Inr (''--- HEALTH READINESS REPORT (2025-10-23 to 2025-10-26) ---\<newline>'' @
          ''\<newline>SLEEP SUMMARY: No data available\<newline>'' @
          ''\<newline>ACTIVITY SUMMARY: No data available\<newline>'' @
          ''\<newline>RECENT WORKOUTS: No data available\<newline>'')"
proof -
  have "fst (get_readiness_report (sample_env (Inr []) (Inr [])) PNone PNone empty_world) =
     Inr (''--- HEALTH READINESS REPORT (2025-10-23 to 2025-10-26) ---\<newline>'' @
          ''\<newline>SLEEP SUMMARY: No data available\<newline>'' @
          ''\<newline>ACTIVITY SUMMARY: No data available\<newline>'' @
          ''\<newline>RECENT WORKOUTS: No data available\<newline>'')"
    by (simp add: get_readiness_report_def sample_env_def window_end_def window_start_def
        minus_days_def MAXORDINAL_def readiness_report_def execute_select_def empty_world_def
        log_event_def table_def order_desc_def build_report_empty report_header_def
        iso_739550 iso_739547)
  then show ?thesis
    using build_report_empty build_report_never_sentinel by blast
qed

section \<open>The query tools without a matching record\<close>

text \<open>
  C6. The claim: for a valid date with no matching record, \<^verbatim>\<open>get_oura_sleep_score\<close>
  and \<^verbatim>\<open>get_oura_activity_steps\<close> each return a "no data" text that names the
  requested date. \<^verbatim>\<open>get_oura_sleep_score\<close> does not: on an empty table its
  \<^verbatim>\<open>else\<close> branch reads the undefined name \<^verbatim>\<open>summary_date\<close> and the handler
  returns the text of the NameError; and since its query does not filter on the day,
  a store that has records, but none for the requested day, answers with the newest
  record under the requested date (the store below has 2025-10-24 and 2025-10-25
  only). \<^verbatim>\<open>get_oura_activity_steps\<close> behaves as claimed.
\<close>

theorem sleep_score_without_matching_record:
  "fst (get_oura_sleep_score (sample_env (Inr []) (Inr [])) (PStr ''2025-10-25'') empty_world) =
     ''Error while fetching sleep data: name 'summary_date' is not defined'' \<and>
   fst (get_oura_sleep_score (sample_env (Inr []) (Inr [])) (PStr ''2025-10-20'') sample_world) =
     ''Sleep data for 2025-10-20:\<newline>- Score: 82\<newline>- Efficiency: N/A%'' \<and>
   fst (get_oura_activity_steps (sample_env (Inr []) (Inr [])) (PStr ''2025-10-20'') sample_world) =
     ''No activity data found for 2025-10-20.''"
proof -
  have a: "fst (get_oura_sleep_score (sample_env (Inr []) (Inr [])) (PStr ''2025-10-25'') empty_world) =
     ''Error while fetching sleep data: name 'summary_date' is not defined''"
    by (simp add: get_oura_sleep_score_def parse_date_def sample_env_def parse_2025_10_25
        execute_select_def empty_world_def log_event_def table_def order_desc_def
        summary_date_def quoted_def)
  have b: "fst (get_oura_sleep_score (sample_env (Inr []) (Inr [])) (PStr ''2025-10-20'') sample_world) =
     ''Sleep data for 2025-10-20:\<newline>- Score: 82\<newline>- Efficiency: N/A%''"
    by (simp add: get_oura_sleep_score_def parse_date_def sample_env_def parse_2025_10_20
        execute_select_def sample_world_def log_event_def table_def order_desc_def
        col_text_def project_def List.map_filter_def sleep_score_text_def dict_get_def
        str_int_def digits.simps digit_def)
  have c: "fst (get_oura_activity_steps (sample_env (Inr []) (Inr [])) (PStr ''2025-10-20'') sample_world) =
     ''No activity data found for 2025-10-20.''"
    by (simp add: get_oura_activity_steps_def parse_date_def sample_env_def parse_2025_10_20
        execute_select_def sample_world_def log_event_def table_def col_eq_def
        date_defs digits.simps Let_def)
  from a b c show ?thesis by blast
qed

section \<open>Start-up without a profile file\<close>

lemmas run_defs = process_query_def execution_stage_def tool_call_def parse_tool_call_def
  list_item_def strip_def is_space_def tools_dict_def dispatch_def call_def branch_inputs_def
  synthesize_def coaching_instruction_def scripted_def log_event_def
  get_oura_sleep_score_func_def get_oura_activity_steps_func_def log_gym_set_func_def
  get_readiness_report_func_def minus_days_def MAXORDINAL_def Let_def

text \<open>
  C9. The claim: start-up never fails and the loaded profile has the documented
  defaults, field by field when a field is missing and as a whole when the file is
  missing or unreadable, so that every later read of a profile field yields a value.
  Start-up indeed never fails (\<open>load_user_profile\<close> is total), and a file that holds
  a JSON object gets the default for each missing field. But when the file is missing,
  is not JSON, or holds another JSON value, the handler only prints "Using default
  metrics" and \<^verbatim>\<open>USER_PROFILE\<close> stays the empty dictionary: the read of
  \<^verbatim>\<open>USER_PROFILE['age']\<close> for the coaching block then raises KeyError, and the
  readiness question is answered with the error reply instead of the completion.
\<close>

theorem missing_profile_file_leaves_profile_empty:
  "load_user_profile NoFile = [] \<and>
   load_user_profile NotJson = [] \<and>
   load_user_profile JsonOther = [] \<and>
   load_user_profile (JsonObject [(''age'', PInt 41)]) =
     [(''age'', PInt 41), (''weight'', PInt 59), (''height'', PInt 162), (''gender'', PStr ''FEMALE'')] \<and>
   coaching_instruction (E\<lparr>USER_PROFILE := load_user_profile NoFile\<rparr>) ''get_readiness_report'' =
     Inl (quoted ''age'') \<and>
   fst (process_query
          ((sample_env (Inr ''ACTION: TOOL_CALL | get_readiness_report'') (Inr ''You are ready.''))
             \<lparr>USER_PROFILE := load_user_profile NoFile\<rparr>)
          ''Am I ready to train?'' sample_world) =
     Inr (execution_error (quoted ''age'')) \<and>
   fst (process_query
          (sample_env (Inr ''ACTION: TOOL_CALL | get_readiness_report'') (Inr ''You are ready.''))
          ''Am I ready to train?'' sample_world) =
     Inr ''You are ready.''"
proof -
  have a: "load_user_profile NoFile = [] \<and> load_user_profile NotJson = [] \<and>
           load_user_profile JsonOther = []"
    by (simp add: load_user_profile_def)
  have b: "load_user_profile (JsonObject [(''age'', PInt 41)]) =
     [(''age'', PInt 41), (''weight'', PInt 59), (''height'', PInt 162), (''gender'', PStr ''FEMALE'')]"
    by (simp add: load_user_profile_def dict_get_def)
  have c: "coaching_instruction (E\<lparr>USER_PROFILE := load_user_profile NoFile\<rparr>) ''get_readiness_report'' =
     Inl (quoted ''age'')"
    by (simp add: coaching_instruction_def load_user_profile_def dict_item_def)
  have d: "fst (process_query
          ((sample_env (Inr ''ACTION: TOOL_CALL | get_readiness_report'') (Inr ''You are ready.''))
             \<lparr>USER_PROFILE := load_user_profile NoFile\<rparr>)
          ''Am I ready to train?'' sample_world) =
     Inr (execution_error (quoted ''age''))"
    by (simp add: run_defs sample_env_def load_user_profile_def dict_item_def
        get_readiness_report_def window_end_def window_start_def readiness_report_def
        split: prod.splits)
  have e: "fst (process_query
          (sample_env (Inr ''ACTION: TOOL_CALL | get_readiness_report'') (Inr ''You are ready.''))
          ''Am I ready to train?'' sample_world) =
     Inr ''You are ready.''"
    by (simp add: run_defs sample_env_def load_user_profile_def dict_item_def dict_get_def
        get_readiness_report_def window_end_def window_start_def readiness_report_def
        split: prod.splits)
  from a b c d e show ?thesis by blast
qed

section \<open>Empty argument fields\<close>

text \<open>
  C2. The claim: the dispatch stage splits the decision on the bar, trims each field
  and drops the fields that are empty after trimming before it invokes the tool,
  except for \<^verbatim>\<open>log_gym_set\<close>. The code computes the list without the empty fields
  and calls the tool with it (line 323), but the result of that call is overwritten by
  the call in the branch of the tool's name, which passes the trimmed fields with the
  empty ones kept. For the decision below the first call, with the date alone, reads
  the store and its result is discarded; the second call passes two arguments to a
  function of one parameter, and the reply is the error text of the TypeError.
\<close>

theorem empty_field_reaches_the_tool:
  "process_query
     (sample_env (Inr ''ACTION: TOOL_CALL | get_oura_activity_steps | | 2025-10-25'') (Inr ''Done''))
     ''How many steps?'' sample_world =
   (Inr (execution_error ''get_oura_activity_steps() takes 1 positional argument but 2 were given''),
    sample_world\<lparr>events :=
      [Completion (decision_prompt
         (sample_env (Inr ''ACTION: TOOL_CALL | get_oura_activity_steps | | 2025-10-25'') (Inr ''Done''))
         739549 ''How many steps?''),
       Invoke ''get_oura_activity_steps'' [PStr ''2025-10-25''],
       Select ''oura_activity'',
       Invoke ''get_oura_activity_steps'' [PStr [], PStr ''2025-10-25'']]\<rparr>)"
  by (simp add: run_defs sample_env_def sample_world_def get_oura_activity_steps_def
      parse_date_def parse_2025_10_25 execute_select_def table_def too_many_args_def plural_def
      digits.simps digit_def iso_739549 col_eq_def project_def List.map_filter_def
      activity_text_def dict_get_def comma_int_def group3.simps str_int_def)

section \<open>The window of the readiness report\<close>

text \<open>
  C4. The claim: a missing or unparseable date is silently replaced by its default
  (the end by today, the start by the end minus three days), the tool never raises on
  bad date input, and a window with the start after the end is discarded for the
  default window. The first part holds. There is no comparison of the start with the
  end anywhere in the tool: two parseable dates are used as given, in either order.
  And the subtraction of three days is repeated, unguarded, in the handler that
  catches its failure, so the tool raises OverflowError when the start is missing or
  unparseable and the end is one of the first three days of year 1.

  As amended: a missing or unparseable end is replaced by today, a missing or
  unparseable start by the resolved end minus three days, a parseable date is used as
  given, whatever the order of the two, and the tool does not raise when the resolved
  end is a date later than 0001-01-03.
\<close>

theorem readiness_window_resolution:
  "(missing_or_unparseable E end_date \<longrightarrow> window_end E end_date = today E) \<and>
   (\<not> missing_or_unparseable E end_date \<longrightarrow> parse_date E end_date = Inr (window_end E end_date)) \<and>
   (missing_or_unparseable E start_date \<longrightarrow> window_start E start_date e = minus_days e 3) \<and>
   (\<not> missing_or_unparseable E start_date \<longrightarrow> window_start E start_date e = parse_date E start_date) \<and>
   (3 < window_end E end_date \<and> window_end E end_date \<le> MAXORDINAL \<longrightarrow>
      \<not> isl (window_start E start_date (window_end E end_date)) \<and>
      \<not> isl (fst (get_readiness_report E start_date end_date w)))"
proof -
  have a: "missing_or_unparseable E end_date \<longrightarrow> window_end E end_date = today E"
    by (auto simp: missing_or_unparseable_def window_end_def split: sum.splits)
  have b: "\<not> missing_or_unparseable E end_date \<longrightarrow> parse_date E end_date = Inr (window_end E end_date)"
    by (auto simp: missing_or_unparseable_def window_end_def split: sum.splits)
  have c: "missing_or_unparseable E start_date \<longrightarrow> window_start E start_date e = minus_days e 3"
    by (auto simp: missing_or_unparseable_def window_start_def split: sum.splits)
  have d: "\<not> missing_or_unparseable E start_date \<longrightarrow> window_start E start_date e = parse_date E start_date"
    by (auto simp: missing_or_unparseable_def window_start_def split: sum.splits)
  have e1: "3 < x \<Longrightarrow> x \<le> MAXORDINAL \<Longrightarrow> \<not> isl (window_start E start_date x)" for x
    by (auto simp: window_start_def minus_days_def Let_def split: sum.splits)
  have e2: "\<not> isl (window_start E start_date (window_end E end_date)) \<Longrightarrow>
      \<not> isl (fst (get_readiness_report E start_date end_date w))"
    by (auto simp: get_readiness_report_def Let_def split: sum.splits prod.splits)
  from a b c d e1 e2 show ?thesis by blast
qed

text \<open>
  The witness: no end date, and the end date 2025-10-25 with the start dates
  \<^verbatim>\<open>'soon'\<close> and 2025-12-31, which lies after the end and is kept.
\<close>

theorem readiness_window_resolution_witness:
  "missing_or_unparseable (sample_env (Inr []) (Inr [])) PNone \<and>
   window_end (sample_env (Inr []) (Inr [])) PNone = 739550 \<and>
   \<not> missing_or_unparseable (sample_env (Inr []) (Inr [])) (PStr ''2025-10-25'') \<and>
   parse_date (sample_env (Inr []) (Inr [])) (PStr ''2025-10-25'') =
     Inr (window_end (sample_env (Inr []) (Inr [])) (PStr ''2025-10-25'')) \<and>
   missing_or_unparseable (sample_env (Inr []) (Inr [])) (PStr ''soon'') \<and>
   window_start (sample_env (Inr []) (Inr [])) (PStr ''soon'') 739549 = Inr 739546 \<and>
   \<not> missing_or_unparseable (sample_env (Inr []) (Inr [])) (PStr ''2025-12-31'') \<and>
   window_start (sample_env (Inr []) (Inr [])) (PStr ''2025-12-31'') 739549 = Inr 739616 \<and>
   3 < window_end (sample_env (Inr []) (Inr [])) (PStr ''2025-10-25'') \<and>
   window_end (sample_env (Inr []) (Inr [])) (PStr ''2025-10-25'') \<le> MAXORDINAL \<and>
   \<not> isl (window_start (sample_env (Inr []) (Inr [])) (PStr ''soon'')
             (window_end (sample_env (Inr []) (Inr [])) (PStr ''2025-10-25''))) \<and>
   \<not> isl (fst (get_readiness_report (sample_env (Inr []) (Inr [])) (PStr ''soon'') (PStr ''2025-10-25'')
                sample_world))"
proof -
  let ?E = "sample_env (Inr []) (Inr [])"
  have p: "parse_date ?E (PStr ''2025-10-25'') = Inr 739549"
    "parse_date ?E (PStr ''soon'') = Inl (''Invalid isoformat string: '' @ quoted ''soon'')"
    "parse_date ?E (PStr ''2025-12-31'') = Inr 739616"
    "today ?E = 739550"
    by (simp_all add: parse_date_def sample_env_def parse_2025_10_25 parse_soon parse_2025_12_31)
  have m: "missing_or_unparseable ?E PNone" "\<not> missing_or_unparseable ?E (PStr ''2025-10-25'')"
    "missing_or_unparseable ?E (PStr ''soon'')" "\<not> missing_or_unparseable ?E (PStr ''2025-12-31'')"
    by (simp_all add: missing_or_unparseable_def p)
  have we: "window_end ?E (PStr ''2025-10-25'') = 739549"
    by (simp add: window_end_def p)
  have r: "3 < window_end ?E (PStr ''2025-10-25'')" "window_end ?E (PStr ''2025-10-25'') \<le> MAXORDINAL"
    by (simp_all add: we MAXORDINAL_def)
  show ?thesis
    using readiness_window_resolution [of ?E PNone PNone 739549 sample_world]
      readiness_window_resolution [of ?E "PStr ''2025-10-25''" "PStr ''soon''" 739549 sample_world]
      readiness_window_resolution [of ?E "PStr ''2025-10-25''" "PStr ''2025-12-31''" 739549 sample_world]
      m r
    by (simp add: p we minus_days_def MAXORDINAL_def)
qed

text \<open>
  The counterexample: start 2025-12-31 and end 2025-01-01 give a report on exactly that
  window, not on the three days before 2025-10-26; and with end 0001-01-02 and an
  unparseable start the tool raises.
\<close>

theorem reversed_window_counterexample:
  "window_end (sample_env (Inr []) (Inr [])) (PStr ''2025-01-01'') = 739252 \<and>
   window_start (sample_env (Inr []) (Inr [])) (PStr ''2025-12-31'') 739252 = Inr 739616 \<and>
   \<not> (739616 \<le> (739252 :: int)) \<and>
   fst (get_readiness_report (sample_env (Inr []) (Inr [])) (PStr ''2025-12-31'') (PStr ''2025-01-01'')
          empty_world) =
     Inr (''--- HEALTH READINESS REPORT (2025-12-31 to 2025-01-01) ---\<newline>'' @
          ''\<newline>SLEEP SUMMARY: No data available\<newline>'' @
          ''\<newline>ACTIVITY SUMMARY: No data available\<newline>'' @
          ''\<newline>RECENT WORKOUTS: No data available\<newline>'') \<and>
   fst (get_readiness_report (sample_env (Inr []) (Inr [])) (PStr ''soon'') (PStr ''0001-01-02'')
          empty_world) = Inl ''date value out of range''"
  by (simp add: get_readiness_report_def sample_env_def window_end_def window_start_def
        parse_date_def parse_2025_12_31 parse_2025_01_01 parse_soon parse_0001_01_02
        minus_days_def MAXORDINAL_def readiness_report_def execute_select_def empty_world_def
        log_event_def table_def order_desc_def build_report_empty report_header_def
        iso_739616 iso_739252)

section \<open>Failures of the completion service\<close>

lemma execution_stage_tool_call:
  "startswith decision ''ACTION: TOOL_CALL'' \<Longrightarrow>
   execution_stage E invoke q decision w =
     (case tool_call E invoke q decision w of
        (Inl e, w1) \<Rightarrow> (execution_error e, w1)
      | (Inr reply, w1) \<Rightarrow> (reply, w1))"
  by (simp add: execution_stage_def)

text \<open>
  C5. The claim: when the completion request of the synthesis stage fails, the
  failure leaves \<^verbatim>\<open>process_query\<close> as an error that the caller must catch, and is
  not turned into a reply inside \<^verbatim>\<open>process_query\<close>. In the code the synthesis
  request stands inside the inner \<^verbatim>\<open>try\<close>, whose handler (line 368) returns the
  reply "Sorry, I ran into an error trying to execute the action ... Error: " followed
  by the text of the exception.

  As amended: no failure of the completion service leaves \<^verbatim>\<open>process_query\<close>. On
  every day after 0001-01-01 the function returns a reply; a failed decision request
  gives the reply "Sorry, I encountered a critical error: " with the text of the
  failure, and a failed synthesis request, after a dispatch that returned a tool
  result, gives the reply of the inner handler with the text of the failure.
\<close>

theorem process_query_converts_every_failure:
  "(1 < today E \<and> today E \<le> MAXORDINAL \<longrightarrow> \<not> isl (fst (process_query E q w))) \<and>
   (llm E = Some invoke \<and> minus_days (today E) 1 = Inr y \<and>
    invoke (decision_prompt E y q) [''\<newline>''] = Inl m \<longrightarrow>
      fst (process_query E q w) = Inr (''Sorry, I encountered a critical error: '' @ m)) \<and>
   (llm E = Some invoke \<and> minus_days (today E) 1 = Inr y \<and>
    invoke (decision_prompt E y q) [''\<newline>''] = Inr c \<and>
    startswith (strip c) ''ACTION: TOOL_CALL'' \<and>
    parse_tool_call (strip c) = Inr (name, inputs) \<and>
    map_of (tools_dict E) name = Some t \<and>
    dispatch E name t inputs (log_event (Completion (decision_prompt E y q)) w) = (Inr tr, w1) \<and>
    coaching_instruction E name = Inr ci \<and>
    invoke (format_prompt tr q ci) [] = Inl m \<longrightarrow>
      fst (process_query E q w) = Inr (execution_error m))"
proof -
  have a: "1 < today E \<and> today E \<le> MAXORDINAL \<longrightarrow> \<not> isl (fst (process_query E q w))"
    by (auto simp: process_query_def minus_days_def Let_def split: option.splits sum.splits prod.splits)
  have b: "llm E = Some invoke \<and> minus_days (today E) 1 = Inr y \<and>
    invoke (decision_prompt E y q) [''\<newline>''] = Inl m \<longrightarrow>
      fst (process_query E q w) = Inr (''Sorry, I encountered a critical error: '' @ m)"
    by (simp add: process_query_def Let_def)
  have c: "llm E = Some invoke \<and> minus_days (today E) 1 = Inr y \<and>
    invoke (decision_prompt E y q) [''\<newline>''] = Inr c \<and>
    startswith (strip c) ''ACTION: TOOL_CALL'' \<and>
    parse_tool_call (strip c) = Inr (name, inputs) \<and>
    map_of (tools_dict E) name = Some t \<and>
    dispatch E name t inputs (log_event (Completion (decision_prompt E y q)) w) = (Inr tr, w1) \<and>
    coaching_instruction E name = Inr ci \<and>
    invoke (format_prompt tr q ci) [] = Inl m \<longrightarrow>
      fst (process_query E q w) = Inr (execution_error m)"
    by (simp add: process_query_def Let_def execution_stage_tool_call tool_call_def synthesize_def)
  from a b c show ?thesis by blast
qed

text \<open>
  The witness: a day in 2025, a decision request that fails with "Timeout", and a
  synthesis request that fails with "Connection refused" after the activity tool has
  answered.
\<close>

theorem process_query_converts_every_failure_witness:
  "1 < today (sample_env (Inr ''ACTION: TOOL_CALL | get_oura_activity_steps | 2025-10-25'') (Inl ''Connection refused'')) \<and>
   today (sample_env (Inr ''ACTION: TOOL_CALL | get_oura_activity_steps | 2025-10-25'') (Inl ''Connection refused'')) \<le> MAXORDINAL \<and>
   \<not> isl (fst (process_query
       (sample_env (Inr ''ACTION: TOOL_CALL | get_oura_activity_steps | 2025-10-25'') (Inl ''Connection refused''))
       ''How many steps?'' sample_world)) \<and>
   llm (sample_env (Inl ''Timeout'') (Inr [])) = Some (scripted (Inl ''Timeout'') (Inr [])) \<and>
   minus_days (today (sample_env (Inl ''Timeout'') (Inr []))) 1 = Inr 739549 \<and>
   scripted (Inl ''Timeout'') (Inr [])
     (decision_prompt (sample_env (Inl ''Timeout'') (Inr [])) 739549 ''How many steps?'') [''\<newline>''] = Inl ''Timeout'' \<and>
   fst (process_query (sample_env (Inl ''Timeout'') (Inr [])) ''How many steps?'' sample_world) =
     Inr ''Sorry, I encountered a critical error: Timeout'' \<and>
   llm (sample_env (Inr ''ACTION: TOOL_CALL | get_oura_activity_steps | 2025-10-25'') (Inl ''Connection refused'')) =
     Some (scripted (Inr ''ACTION: TOOL_CALL | get_oura_activity_steps | 2025-10-25'') (Inl ''Connection refused'')) \<and>
   startswith (strip ''ACTION: TOOL_CALL | get_oura_activity_steps | 2025-10-25'') ''ACTION: TOOL_CALL'' \<and>
   parse_tool_call (strip ''ACTION: TOOL_CALL | get_oura_activity_steps | 2025-10-25'') =
     Inr (''get_oura_activity_steps'', [''2025-10-25'']) \<and>
   fst (dispatch
     (sample_env (Inr ''ACTION: TOOL_CALL | get_oura_activity_steps | 2025-10-25'') (Inl ''Connection refused''))
     ''get_oura_activity_steps''
     (the (map_of (tools_dict (sample_env (Inr ''ACTION: TOOL_CALL | get_oura_activity_steps | 2025-10-25'') (Inl ''Connection refused''))) ''get_oura_activity_steps''))
     [''2025-10-25'']
     (log_event (Completion (decision_prompt
        (sample_env (Inr ''ACTION: TOOL_CALL | get_oura_activity_steps | 2025-10-25'') (Inl ''Connection refused''))
        739549 ''How many steps?'')) sample_world)) =
     Inr ''Activity data for 2025-10-25:\<newline>- Steps: 10,432\<newline>- Active calories: 512\<newline>- Activity score: 85'' \<and>
   coaching_instruction
     (sample_env (Inr ''ACTION: TOOL_CALL | get_oura_activity_steps | 2025-10-25'') (Inl ''Connection refused''))
     ''get_oura_activity_steps'' = Inr [] \<and>
   fst (process_query
       (sample_env (Inr ''ACTION: TOOL_CALL | get_oura_activity_steps | 2025-10-25'') (Inl ''Connection refused''))
       ''How many steps?'' sample_world) = Inr (execution_error ''Connection refused'')"
proof -
  let ?d = "''ACTION: TOOL_CALL | get_oura_activity_steps | 2025-10-25''"
  let ?E = "sample_env (Inr ?d) (Inl ''Connection refused'')"
  let ?F = "sample_env (Inl ''Timeout'') (Inr [])"
  let ?q = "''How many steps?''"
  let ?t = "the (map_of (tools_dict ?E) ''get_oura_activity_steps'')"
  let ?w0 = "log_event (Completion (decision_prompt ?E 739549 ?q)) sample_world"
  let ?tr = "''Activity data for 2025-10-25:\<newline>- Steps: 10,432\<newline>- Active calories: 512\<newline>- Activity score: 85''"
  have E: "today ?E = 739550" "llm ?E = Some (scripted (Inr ?d) (Inl ''Connection refused''))"
    "today ?F = 739550" "llm ?F = Some (scripted (Inl ''Timeout'') (Inr []))"
    by (simp_all add: sample_env_def)
  have y: "minus_days 739550 1 = Inr 739549"
    by (simp add: minus_days_def MAXORDINAL_def)
  have s: "strip ?d = ?d"
    by (simp add: strip_def is_space_def)
  have sw: "startswith ?d ''ACTION: TOOL_CALL''"
    by simp
  have p: "parse_tool_call ?d = Inr (''get_oura_activity_steps'', [''2025-10-25''])"
    by (simp add: parse_tool_call_def list_item_def strip_def is_space_def)
  have t: "map_of (tools_dict ?E) ''get_oura_activity_steps'' = Some ?t"
    by (simp add: tools_dict_def sample_env_def)
  obtain r w1 where d: "dispatch ?E ''get_oura_activity_steps'' ?t [''2025-10-25''] ?w0 = (r, w1)"
    by (cases "dispatch ?E ''get_oura_activity_steps'' ?t [''2025-10-25''] ?w0")
  have r: "r = Inr ?tr"
    using d
    by (simp add: run_defs sample_env_def sample_world_def get_oura_activity_steps_def
      parse_date_def parse_2025_10_25 execute_select_def table_def
      iso_739549 col_eq_def project_def List.map_filter_def
      activity_text_def dict_get_def comma_int_def group3.simps str_int_def digits.simps digit_def
      split: prod.splits)
  have ci: "coaching_instruction ?E ''get_oura_activity_steps'' = Inr []"
    by (simp add: coaching_instruction_def)
  have f1: "scripted (Inl ''Timeout'') (Inr []) (decision_prompt ?F 739549 ?q) [''\<newline>''] = Inl ''Timeout''"
    and f2: "scripted (Inr ?d) (Inl ''Connection refused'') (decision_prompt ?E 739549 ?q) [''\<newline>''] = Inr ?d"
    and f3: "scripted (Inr ?d) (Inl ''Connection refused'') (format_prompt ?tr ?q []) [] = Inl ''Connection refused''"
    by (simp_all add: scripted_def)
  have a: "\<not> isl (fst (process_query ?E ?q sample_world))"
    using process_query_converts_every_failure [of ?E ?q sample_world] E
    by (simp add: MAXORDINAL_def)
  have b: "fst (process_query ?F ?q sample_world) = Inr ''Sorry, I encountered a critical error: Timeout''"
    using process_query_converts_every_failure
      [of ?F ?q sample_world "scripted (Inl ''Timeout'') (Inr [])" 739549 "''Timeout''"] E y f1
    by simp
  have c: "fst (process_query ?E ?q sample_world) = Inr (execution_error ''Connection refused'')"
    using process_query_converts_every_failure
      [of ?E ?q sample_world "scripted (Inr ?d) (Inl ''Connection refused'')" 739549 "''Connection refused''"
          ?d "''get_oura_activity_steps''" "[''2025-10-25'']" ?t ?tr w1 "[]"]
      E y f2 f3 s sw p t d r ci
    by simp
  show ?thesis
    using a b c E y f1 s sw p d r ci
    by (simp add: MAXORDINAL_def)
qed

text \<open>
  The counterexample: the decision names a tool, the tool answers, and the synthesis
  request fails with "Connection refused". \<^verbatim>\<open>process_query\<close> returns a reply.
\<close>

theorem synthesis_failure_counterexample:
  "fst (process_query
     (sample_env (Inr ''ACTION: TOOL_CALL | get_oura_activity_steps | 2025-10-25'')
                 (Inl ''Connection refused''))
     ''How many steps?'' sample_world) =
   Inr ''Sorry, I ran into an error trying to execute the action. Please check the date format or simplify your request. Error: Connection refused''"
  by (simp add: run_defs sample_env_def sample_world_def get_oura_activity_steps_def
      parse_date_def parse_2025_10_25 execute_select_def table_def 
      iso_739549 col_eq_def project_def List.map_filter_def
      activity_text_def dict_get_def comma_int_def group3.simps str_int_def digits.simps digit_def
      execution_error_def split: prod.splits)

section \<open>Counting the calls to the outside\<close>

lemmas count_defs = completions_def round_trips_def invocations_def

lemma store_only_refl: "store_only n w w"
  by (simp add: store_only_def)

lemma store_only_mono: "store_only n w w' \<Longrightarrow> n \<le> m \<Longrightarrow> store_only m w w'"
  by (simp add: store_only_def)

lemma select_store_only: "execute_select tbl cols flt post w = (r, w') \<Longrightarrow> store_only 1 w w'"
  by (auto simp: execute_select_def store_only_def count_defs log_event_def Let_def
      split: db_mode.splits)

lemma insert_store_only: "execute_insert data w = (r, w') \<Longrightarrow> store_only 1 w w'"
  by (auto simp: execute_insert_def store_only_def count_defs log_event_def Let_def
      split: db_mode.splits)

lemma sleep_score_store_only: "store_only 1 w (snd (get_oura_sleep_score E day w))"
  by (auto simp: get_oura_sleep_score_def store_only_refl
      dest: select_store_only split: sum.splits prod.splits list.splits)

lemma activity_store_only: "store_only 1 w (snd (get_oura_activity_steps E day w))"
  by (auto simp: get_oura_activity_steps_def store_only_refl
      dest: select_store_only split: sum.splits prod.splits list.splits)

lemma log_gym_set_store_only: "store_only 1 w (snd (log_gym_set E d ex wt r s w))"
  by (auto simp: log_gym_set_def store_only_refl
      dest: insert_store_only split: sum.splits prod.splits bool.splits option.splits)

lemma readiness_report_store_only: "store_only 3 w (snd (readiness_report E start end w))"
proof -
  have t: "store_only 1 a b \<Longrightarrow> store_only 1 b c \<Longrightarrow> store_only 3 a c" for a b c
    by (simp add: store_only_def)
  have t3: "store_only 1 a b \<Longrightarrow> store_only 1 b c \<Longrightarrow> store_only 1 c d \<Longrightarrow> store_only 3 a d" for a b c d
    by (simp add: store_only_def)
  show ?thesis
    by (auto simp: readiness_report_def
        dest!: select_store_only intro: t t3 store_only_mono split: sum.splits prod.splits)
qed

lemma get_readiness_report_store_only:
  "store_only 3 w (snd (get_readiness_report E sd ed w))"
proof (cases "readiness_report E (case window_start E sd (window_end E ed) of Inr s \<Rightarrow> s | Inl e \<Rightarrow> 0)
                (window_end E ed) w")
  case (Pair r w')
  then have "store_only 3 w w'"
    using readiness_report_store_only [of w E _ "window_end E ed"] by (metis snd_conv)
  with Pair show ?thesis
    by (auto simp: get_readiness_report_def store_only_refl Let_def split: sum.splits)
qed

lemma sleep_func_store_only: "store_only 1 w (snd (get_oura_sleep_score_func E args w))"
  using sleep_score_store_only [of w E]
  by (simp add: get_oura_sleep_score_func_def store_only_refl split_beta split: list.splits)

lemma activity_func_store_only: "store_only 1 w (snd (get_oura_activity_steps_func E args w))"
  using activity_store_only [of w E]
  by (simp add: get_oura_activity_steps_func_def store_only_refl split_beta split: list.splits)

lemma log_gym_set_func_store_only: "store_only 1 w (snd (log_gym_set_func E args w))"
  using log_gym_set_store_only [of w E]
  by (simp add: log_gym_set_func_def store_only_refl split_beta split: list.splits)

lemma readiness_func_store_only: "store_only 3 w (snd (get_readiness_report_func E args w))"
  using get_readiness_report_store_only [of w E]
  by (simp add: get_readiness_report_func_def store_only_refl split: list.splits)

lemma tools_dict_lookup:
  "map_of (tools_dict E) name =
     (if \<not> supabase_available E then None
      else if name = ''get_oura_sleep_score'' then Some (snd (tools_dict E ! 0))
      else if name = ''get_oura_activity_steps'' then Some (snd (tools_dict E ! 1))
      else if name = ''log_gym_set'' then Some (snd (tools_dict E ! 2))
      else if name = ''get_readiness_report'' then Some (snd (tools_dict E ! 3))
      else None)"
  by (simp add: tools_dict_def)


lemma tools_dict_funcs:
  "supabase_available E \<Longrightarrow> t_func (snd (tools_dict E ! 0)) = get_oura_sleep_score_func E"
  "supabase_available E \<Longrightarrow> t_func (snd (tools_dict E ! 1)) = get_oura_activity_steps_func E"
  "supabase_available E \<Longrightarrow> t_func (snd (tools_dict E ! 2)) = log_gym_set_func E"
  "supabase_available E \<Longrightarrow> t_func (snd (tools_dict E ! 3)) = get_readiness_report_func E"
  by (simp_all add: tools_dict_def)

lemma registered_tool_cases:
  assumes "map_of (tools_dict E) name = Some t"
  shows "supabase_available E \<and>
   ((name = ''get_oura_sleep_score'' \<and> t_func t = get_oura_sleep_score_func E) \<or>
    (name = ''get_oura_activity_steps'' \<and> t_func t = get_oura_activity_steps_func E) \<or>
    (name = ''log_gym_set'' \<and> t_func t = log_gym_set_func E) \<or>
    (name = ''get_readiness_report'' \<and> t_func t = get_readiness_report_func E))"
proof -
  have sa: "supabase_available E"
    using assms by (simp add: tools_dict_lookup split: if_splits)
  show ?thesis
    using assms sa tools_dict_funcs [OF sa]
    by (auto simp: tools_dict_lookup split: if_splits)
qed

lemma registered_tool_store_only:
  assumes "map_of (tools_dict E) name = Some t"
  shows "store_only (if name = ''get_readiness_report'' then 3 else 1) w (snd (t_func t args w))"
proof -
  have "(name = ''get_oura_sleep_score'' \<and> t_func t = get_oura_sleep_score_func E) \<or>
    (name = ''get_oura_activity_steps'' \<and> t_func t = get_oura_activity_steps_func E) \<or>
    (name = ''log_gym_set'' \<and> t_func t = log_gym_set_func E) \<or>
    (name = ''get_readiness_report'' \<and> t_func t = get_readiness_report_func E)"
    using registered_tool_cases [OF assms] by (rule conjunct2)
  then show ?thesis
    using sleep_func_store_only [of w E args] activity_func_store_only [of w E args]
      log_gym_set_func_store_only [of w E args] readiness_func_store_only [of w E args]
    by (elim disjE conjE) simp_all
qed

lemma log_invoke_counts:
  "completions (log_event (Invoke n a) w) = completions w"
  "invocations (log_event (Invoke n a) w) = invocations w + 1"
  "round_trips (log_event (Invoke n a) w) = round_trips w"
  by (simp_all add: count_defs log_event_def)

lemma log_completion_counts:
  "completions (log_event (Completion p) w) = completions w + 1"
  "invocations (log_event (Completion p) w) = invocations w"
  "round_trips (log_event (Completion p) w) = round_trips w"
  by (simp_all add: count_defs log_event_def)

lemma call_counts:
  assumes "map_of (tools_dict E) name = Some t" and "call name t args w = (r, w')"
  shows "completions w' = completions w \<and> invocations w' = invocations w + 1 \<and>
         round_trips w \<le> round_trips w' \<and> round_trips w' \<le> round_trips w + 3"
proof -
  have "store_only 3 (log_event (Invoke name args) w) w'"
    using registered_tool_store_only [OF assms(1), of "log_event (Invoke name args) w" args] assms(2)
    by (auto simp: call_def intro: store_only_mono)
  then show ?thesis
    by (simp add: store_only_def log_invoke_counts)
qed

lemma dispatch_counts:
  assumes t: "map_of (tools_dict E) name = Some t" and d: "dispatch E name t inputs w = (r, w')"
  shows "completions w' = completions w \<and> invocations w < invocations w' \<and>
         invocations w' \<le> invocations w + 2 \<and>
         round_trips w \<le> round_trips w' \<and>
         round_trips w' - round_trips w \<le> 3 * (invocations w' - invocations w)"
proof -
  obtain r1 w1 where c1: "call name t (map PStr (filter (\<lambda>i. i \<noteq> []) inputs)) w = (r1, w1)"
    by (cases "call name t (map PStr (filter (\<lambda>i. i \<noteq> []) inputs)) w")
  note k1 = call_counts [OF t c1]
  show ?thesis
  proof (cases "isl r1 \<or> isl (branch_inputs E name inputs)")
    case True
    then have "w' = w1"
      using d c1 by (auto simp: dispatch_def split: sum.splits)
    with k1 show ?thesis by auto
  next
    case False
    then obtain x args where x: "r1 = Inr x" "branch_inputs E name inputs = Inr args"
      by (cases r1; cases "branch_inputs E name inputs") auto
    then have c2: "call name t args w1 = (r, w')"
      using d c1 by (simp add: dispatch_def)
    note k2 = call_counts [OF t c2]
    from k1 k2 show ?thesis by auto
  qed
qed

lemma synthesize_counts:
  "synthesize E invoke q name tr w = (r, w') \<Longrightarrow>
   completions w' \<le> completions w + 1 \<and> invocations w' = invocations w \<and>
   round_trips w' = round_trips w"
  by (auto simp: synthesize_def Let_def log_completion_counts split: sum.splits)

lemma tool_call_counts:
  assumes "tool_call E invoke q decision w = (r, w')"
  shows "completions w' \<le> completions w + 1 \<and> invocations w \<le> invocations w' \<and>
         round_trips w \<le> round_trips w' \<and>
         round_trips w' - round_trips w \<le> 3 * (invocations w' - invocations w)"
proof (cases "parse_tool_call decision")
  case (Inl e)
  then show ?thesis using assms by (simp add: tool_call_def)
next
  case (Inr p)
  obtain name inputs where p: "p = (name, inputs)" by (cases p)
  show ?thesis
  proof (cases "map_of (tools_dict E) name")
    case None
    then show ?thesis using assms Inr p by (simp add: tool_call_def)
  next
    case (Some t)
    obtain r1 w1 where d: "dispatch E name t inputs w = (r1, w1)"
      by (cases "dispatch E name t inputs w")
    note k1 = dispatch_counts [OF Some d]
    show ?thesis
    proof (cases r1)
      case (Inl e)
      then have "w' = w1" using assms Inr p Some d by (simp add: tool_call_def)
      with k1 show ?thesis by auto
    next
      case (Inr tr)
      then have "synthesize E invoke q name tr w1 = (r, w')"
        using assms \<open>parse_tool_call decision = Inr p\<close> p Some d by (simp add: tool_call_def)
      from synthesize_counts [OF this] k1 show ?thesis by auto
    qed
  qed
qed

lemma execution_stage_counts:
  assumes "execution_stage E invoke q decision w = (r, w')"
  shows "completions w' \<le> completions w + 1 \<and> invocations w \<le> invocations w' \<and>
         round_trips w \<le> round_trips w' \<and>
         round_trips w' - round_trips w \<le> 3 * (invocations w' - invocations w)"
proof (cases "startswith decision ''ACTION: TOOL_CALL''")
  case True
  obtain r1 w1 where tc: "tool_call E invoke q decision w = (r1, w1)"
    by (cases "tool_call E invoke q decision w")
  then have "w' = w1"
    using assms True by (auto simp: execution_stage_def split: sum.splits)
  with tool_call_counts [OF tc] show ?thesis by simp
next
  case False
  then have "w' = w"
    using assms by (auto simp: execution_stage_def split: if_splits)
  then show ?thesis by simp
qed

lemma process_query_counts:
  assumes "process_query E q w = (r, w')"
  shows "completions w' \<le> completions w + 2 \<and> invocations w \<le> invocations w' \<and>
         round_trips w \<le> round_trips w' \<and>
         round_trips w' - round_trips w \<le> 3 * (invocations w' - invocations w)"
proof (cases "llm E")
  case None
  then show ?thesis using assms by (auto simp: process_query_def)
next
  case (Some invoke)
  show ?thesis
  proof (cases "minus_days (today E) 1")
    case (Inl e)
    then show ?thesis using assms Some by (auto simp: process_query_def)
  next
    case (Inr y)
    let ?w0 = "log_event (Completion (decision_prompt E y q)) w"
    show ?thesis
    proof (cases "invoke (decision_prompt E y q) [''\<newline>'']")
      case (Inl e)
      then have "w' = ?w0" using assms Some Inr by (auto simp: process_query_def Let_def)
      then show ?thesis by (simp add: log_completion_counts)
    next
      case c: (Inr c)
      obtain r1 w1 where ex: "execution_stage E invoke q (strip c) ?w0 = (r1, w1)"
        by (cases "execution_stage E invoke q (strip c) ?w0")
      then have "w' = w1" using assms Some Inr c by (auto simp: process_query_def Let_def)
      with execution_stage_counts [OF ex] show ?thesis
        by (auto simp: log_completion_counts)
    qed
  qed
qed

section \<open>The calls of one query\<close>

lemma readiness_report_world:
  "db w = DbUp \<Longrightarrow>
   snd (readiness_report E start end w) =
     w\<lparr>events := events w @ [Select ''oura_sleep'', Select ''oura_activity'', Select ''manual_workouts'']\<rparr>"
  by (simp add: readiness_report_def execute_select_def log_event_def Let_def split: sum.splits)

lemma get_readiness_report_unfold:
  "supabase_available E \<Longrightarrow> window_start E sd (window_end E ed) = Inr s \<Longrightarrow>
   get_readiness_report E sd ed w =
     (Inr (fst (readiness_report E s (window_end E ed) w)),
      snd (readiness_report E s (window_end E ed) w))"
  by (simp add: get_readiness_report_def Let_def split_beta)

lemma sample_world_facts: "db sample_world = DbUp" "events sample_world = []"
  by (simp_all add: sample_world_def)

text \<open>
  C3. The claim: one query makes at most two completion requests (the decision and
  at most one synthesis) and at most one round trip to the store, inside the single
  invocation of the selected tool. The bound on the completion requests holds. The
  bound on the round trips does not, for two reasons. By design,
  \<^verbatim>\<open>get_readiness_report\<close> sends three queries, one for each table. And the
  dispatch stage calls the selected tool a second time (see C10), which doubles the
  round trips of a query.

  As amended: one query makes at most two completion requests; every round trip to
  the store is made inside an invocation of the selected tool, at most three for one
  invocation; one invocation of \<^verbatim>\<open>get_readiness_report\<close> makes at most three
  round trips and one invocation of any other tool at most one. The number of
  invocations is left open here.
\<close>

theorem process_query_external_calls:
  "completions (snd (process_query E q w)) \<le> completions w + 2 \<and>
   invocations w \<le> invocations (snd (process_query E q w)) \<and>
   round_trips w \<le> round_trips (snd (process_query E q w)) \<and>
   round_trips (snd (process_query E q w)) - round_trips w \<le>
     3 * (invocations (snd (process_query E q w)) - invocations w) \<and>
   round_trips (snd (get_oura_sleep_score_func E args w)) \<le> round_trips w + 1 \<and>
   round_trips (snd (get_oura_activity_steps_func E args w)) \<le> round_trips w + 1 \<and>
   round_trips (snd (log_gym_set_func E args w)) \<le> round_trips w + 1 \<and>
   round_trips (snd (get_readiness_report_func E args w)) \<le> round_trips w + 3"
proof -
  obtain r w' where p: "process_query E q w = (r, w')"
    by (cases "process_query E q w")
  from process_query_counts [OF p] p
  have a: "completions (snd (process_query E q w)) \<le> completions w + 2 \<and>
   invocations w \<le> invocations (snd (process_query E q w)) \<and>
   round_trips w \<le> round_trips (snd (process_query E q w)) \<and>
   round_trips (snd (process_query E q w)) - round_trips w \<le>
     3 * (invocations (snd (process_query E q w)) - invocations w)"
    by simp
  have b: "round_trips (snd (get_oura_sleep_score_func E args w)) \<le> round_trips w + 1"
    "round_trips (snd (get_oura_activity_steps_func E args w)) \<le> round_trips w + 1"
    "round_trips (snd (log_gym_set_func E args w)) \<le> round_trips w + 1"
    "round_trips (snd (get_readiness_report_func E args w)) \<le> round_trips w + 3"
    using sleep_func_store_only [of w E args] activity_func_store_only [of w E args]
      log_gym_set_func_store_only [of w E args] readiness_func_store_only [of w E args]
    by (simp_all add: store_only_def)
  from a b show ?thesis by simp
qed

text \<open>
  The counterexample: a readiness question on a store that answers. The query makes
  six round trips in two invocations, and a single invocation of the tool makes three.
\<close>

theorem round_trips_counterexample:
  "round_trips sample_world = 0 \<and>
   round_trips (snd (process_query
      (sample_env (Inr ''ACTION: TOOL_CALL | get_readiness_report'') (Inr ''You are ready.''))
      ''Am I ready to train?'' sample_world)) = 6 \<and>
   invocations (snd (process_query
      (sample_env (Inr ''ACTION: TOOL_CALL | get_readiness_report'') (Inr ''You are ready.''))
      ''Am I ready to train?'' sample_world)) = 2 \<and>
   round_trips (snd (get_readiness_report_func
      (sample_env (Inr ''ACTION: TOOL_CALL | get_readiness_report'') (Inr ''You are ready.''))
      [] sample_world)) = 3"
proof -
  let ?E = "sample_env (Inr ''ACTION: TOOL_CALL | get_readiness_report'') (Inr ''You are ready.'')"
  have E: "supabase_available ?E" "window_start ?E PNone (window_end ?E PNone) = Inr 739547"
    "window_end ?E PNone = 739550"
    by (simp_all add: sample_env_def window_start_def window_end_def minus_days_def MAXORDINAL_def)
  have g: "get_readiness_report ?E PNone PNone w =
     (Inr (fst (readiness_report ?E 739547 739550 w)), snd (readiness_report ?E 739547 739550 w))" for w
    using get_readiness_report_unfold [OF E(1) E(2), of w] by (simp add: E(3))
  have a: "round_trips sample_world = 0"
    by (simp add: count_defs sample_world_facts)
  have d: "round_trips (snd (get_readiness_report_func ?E [] sample_world)) = 3"
    by (simp add: get_readiness_report_func_def g readiness_report_world sample_world_facts count_defs)
  have E2: "llm ?E = Some (scripted (Inr ''ACTION: TOOL_CALL | get_readiness_report'') (Inr ''You are ready.''))"
    "today ?E = 739550"
    by (simp_all add: sample_env_def)
  have ci: "\<not> isl (coaching_instruction ?E ''get_readiness_report'')"
    by (simp add: coaching_instruction_def sample_env_def load_user_profile_def dict_item_def dict_get_def)
  then obtain c where c: "coaching_instruction ?E ''get_readiness_report'' = Inr c"
    by (cases "coaching_instruction ?E ''get_readiness_report''") auto
  have b: "round_trips (snd (process_query ?E ''Am I ready to train?'' sample_world)) = 6 \<and>
           invocations (snd (process_query ?E ''Am I ready to train?'' sample_world)) = 2"
    by (simp add: process_query_def execution_stage_def tool_call_def parse_tool_call_def
        list_item_def strip_def is_space_def tools_dict_lookup E E2 dispatch_def call_def
        branch_inputs_def minus_days_def MAXORDINAL_def Let_def scripted_def
        tools_dict_funcs get_readiness_report_func_def g readiness_report_world
        sample_world_facts log_event_def synthesize_def c count_defs)
  from a b d show ?thesis by simp
qed

section \<open>The maximal lift of each exercise\<close>

lemma map_of_dict_set: "map_of (dict_set k v d) = (map_of d)(k \<mapsto> v)"
  by (induction d) (auto simp: fun_eq_iff)

lemma keys_dict_set:
  "map fst (dict_set k v d) = (if k \<in> set (map fst d) then map fst d else map fst d @ [k])"
  by (induction d) (auto simp: image_iff, force)

lemma distinct_dict_set: "distinct (map fst d) \<Longrightarrow> distinct (map fst (dict_set k v d))"
  by (simp add: keys_dict_set)

lemma py_gt_numbers:
  "num_of a = Some p \<Longrightarrow> num_of b = Some q \<Longrightarrow> py_gt a b = Inr (q < p)"
  by (simp add: py_gt_def)

lemma kept_entry_weight: "dict_item (kept_entry r) ''weight'' = Inr (weight_val r)"
  by (simp add: kept_entry_def dict_item_def)

lemma complete_record_items:
  assumes "complete_record x"
  shows "dict_item x ''exercise_name'' = Inr (exercise_of x)"
    and "dict_item x ''workout_date'' = Inr (dict_get x ''workout_date'' PNone)"
    and "num_of (weight_val x) = Some (weight_of x)"
  using assms
  by (auto simp: complete_record_def dict_item_def dict_get_def exercise_of_def weight_of_def)

lemma max_lift_step_new:
  assumes "complete_record x" and "map_of ex (exercise_of x) = None"
  shows "max_lift_step x ex = Inr (dict_set (exercise_of x) (kept_entry x) ex)"
  using assms complete_record_items [OF assms(1)]
  by (simp add: max_lift_step_def Let_def kept_entry_def weight_val_def)

lemma max_lift_step_seen:
  assumes "complete_record x" and "complete_record r"
    and "map_of ex (exercise_of x) = Some (kept_entry r)"
  shows "max_lift_step x ex =
     Inr (if weight_of r < weight_of x then dict_set (exercise_of x) (kept_entry x) ex else ex)"
proof -
  have g: "py_gt (weight_val x) (weight_val r) = Inr (weight_of r < weight_of x)"
    using complete_record_items(3) [OF assms(1)] complete_record_items(3) [OF assms(2)]
    by (rule py_gt_numbers)
  then have g': "py_gt (dict_get x ''weight_kg'' (PInt 0)) (dict_get r ''weight_kg'' (PInt 0)) =
      Inr (weight_of r < weight_of x)"
    by (simp add: weight_val_def)
  show ?thesis
    using assms(3) complete_record_items(1,2) [OF assms(1)] g'
    by (simp add: max_lift_step_def Let_def kept_entry_def weight_val_def dict_item_def)
qed

lemma find_SomeD:
  "find P xs = Some r \<Longrightarrow> \<exists>b a. xs = b @ r # a \<and> P r \<and> (\<forall>y\<in>set b. \<not> P y)"
proof (induction xs)
  case Nil
  then show ?case by simp
next
  case (Cons x xs)
  show ?case
  proof (cases "P x")
    case True
    with Cons.prems have "x = r" by simp
    with True have "x # xs = [] @ r # xs \<and> P r \<and> (\<forall>y\<in>set []. \<not> P y)" by simp
    then show ?thesis by blast
  next
    case False
    with Cons.prems have "find P xs = Some r" by simp
    from Cons.IH [OF this] obtain b a where "xs = b @ r # a" "P r" "\<forall>y\<in>set b. \<not> P y"
      by blast
    with False have "x # xs = (x # b) @ r # a \<and> P r \<and> (\<forall>y\<in>set (x # b). \<not> P y)" by simp
    then show ?thesis by blast
  qed
qed

lemma find_SomeI:
  "P r \<Longrightarrow> \<forall>y\<in>set b. \<not> P y \<Longrightarrow> find P (b @ r # a) = Some r"
  by (induction b) auto

lemma list_has_maximum:
  fixes f :: "'a \<Rightarrow> rat"
  shows "xs \<noteq> [] \<Longrightarrow> \<exists>m\<in>set xs. \<forall>x\<in>set xs. f x \<le> f m"
proof (induction xs)
  case Nil
  then show ?case by simp
next
  case (Cons x xs)
  show ?case
  proof (cases "xs = []")
    case True
    then show ?thesis by simp
  next
    case False
    from Cons.IH [OF this] obtain m where m: "m \<in> set xs" "\<forall>y\<in>set xs. f y \<le> f m" by blast
    show ?thesis
    proof (cases "f x \<le> f m")
      case True
      with m show ?thesis by auto
    next
      case False
      with m have "\<forall>y\<in>set (x # xs). f y \<le> f x" by auto
      then show ?thesis by auto
    qed
  qed
qed

lemma first_maximum_None:
  fixes f :: "'a \<Rightarrow> rat"
  assumes "find (\<lambda>r. list_all (\<lambda>x. f x \<le> f r) nm) nm = None"
  shows "nm = []"
proof (rule ccontr)
  assume "nm \<noteq> []"
  from list_has_maximum [OF this, of f] obtain m where "m \<in> set nm" "\<forall>x\<in>set nm. f x \<le> f m"
    by blast
  then have "\<exists>r\<in>set nm. list_all (\<lambda>x. f x \<le> f r) nm"
    by (auto simp: list_all_iff)
  with assms show False by (simp add: find_None_iff)
qed

lemma first_maximumD:
  fixes f :: "'a \<Rightarrow> rat"
  assumes "find (\<lambda>r. list_all (\<lambda>x. f x \<le> f r) nm) nm = Some r"
  shows "\<exists>b a. nm = b @ r # a \<and> (\<forall>y\<in>set b. f y < f r) \<and> (\<forall>y\<in>set a. f y \<le> f r)"
proof -
  from find_SomeD [OF assms] obtain b a where
    s: "nm = b @ r # a" and p: "list_all (\<lambda>x. f x \<le> f r) nm"
    and n: "\<forall>y\<in>set b. \<not> list_all (\<lambda>x. f x \<le> f y) nm"
    by blast
  have le: "\<forall>x\<in>set nm. f x \<le> f r" using p by (simp add: list_all_iff)
  have "f y < f r" if "y \<in> set b" for y
  proof -
    from n that obtain x where "x \<in> set nm" "\<not> f x \<le> f y" by (auto simp: list_all_iff)
    with le show ?thesis by force
  qed
  with s le show ?thesis by auto
qed

lemma first_maximumI:
  fixes f :: "'a \<Rightarrow> rat"
  assumes "nm = b @ r # a" "\<forall>y\<in>set b. f y < f r" "\<forall>y\<in>set a. f y \<le> f r"
  shows "find (\<lambda>r. list_all (\<lambda>x. f x \<le> f r) nm) nm = Some r"
proof -
  have p: "list_all (\<lambda>x. f x \<le> f r) nm"
    using assms by (auto simp: list_all_iff less_imp_le)
  have n: "\<forall>y\<in>set b. \<not> list_all (\<lambda>x. f x \<le> f y) nm"
    using assms by (auto simp: list_all_iff)
  from find_SomeI [of "\<lambda>r. list_all (\<lambda>x. f x \<le> f r) nm" r b a, OF p n] assms(1)
  show ?thesis by simp
qed

lemma heaviest_first_other:
  "name \<noteq> exercise_of x \<Longrightarrow> heaviest_first name (done @ [x]) = heaviest_first name done"
  by (simp add: heaviest_first_def)

lemma heaviest_first_append:
  "heaviest_first (exercise_of x) (done @ [x]) =
     (let nm = filter (\<lambda>r. exercise_of r = exercise_of x) done @ [x]
      in find (\<lambda>r. list_all (\<lambda>y. weight_of y \<le> weight_of r) nm) nm)"
  by (simp add: heaviest_first_def)

lemma max_lift_step_invariant:
  assumes c: "complete_record x"
    and d: "distinct (map fst ex)"
    and cs: "list_all complete_record done"
    and m: "\<forall>name. map_of ex name = map_option kept_entry (heaviest_first name done)"
  shows "\<exists>ex'. max_lift_step x ex = Inr ex' \<and> distinct (map fst ex') \<and>
           (\<forall>name. map_of ex' name = map_option kept_entry (heaviest_first name (done @ [x])))"
proof -
  let ?n = "exercise_of x"
  let ?nm = "filter (\<lambda>r. exercise_of r = ?n) done"
  let ?new = "dict_set ?n (kept_entry x) ex"
  have new: "heaviest_first ?n (done @ [x]) = Some x \<Longrightarrow>
      \<forall>name. map_of ?new name = map_option kept_entry (heaviest_first name (done @ [x]))"
    using m by (simp add: map_of_dict_set heaviest_first_other)
  have same: "heaviest_first ?n (done @ [x]) = heaviest_first ?n done \<Longrightarrow>
      \<forall>name. map_of ex name = map_option kept_entry (heaviest_first name (done @ [x]))"
    using m by (metis heaviest_first_other)
  show ?thesis
  proof (cases "heaviest_first ?n done")
    case None
    then have "map_of ex ?n = None" using m by simp
    from max_lift_step_new [OF c this] have step: "max_lift_step x ex = Inr ?new" .
    from None have "?nm = []"
      using first_maximum_None [of weight_of ?nm] by (simp add: heaviest_first_def Let_def)
    then have "heaviest_first ?n (done @ [x]) = Some x"
      by (simp add: heaviest_first_append Let_def)
    from new [OF this] step distinct_dict_set [OF d] show ?thesis by blast
  next
    case (Some r)
    then have f: "find (\<lambda>r. list_all (\<lambda>y. weight_of y \<le> weight_of r) ?nm) ?nm = Some r"
      by (simp add: heaviest_first_def Let_def)
    from first_maximumD [OF f] obtain b a where
      s: "?nm = b @ r # a" and lt: "\<forall>y\<in>set b. weight_of y < weight_of r"
      and le: "\<forall>y\<in>set a. weight_of y \<le> weight_of r"
      by blast
    have "r \<in> set ?nm" using s by simp
    then have "r \<in> set done" by simp
    with cs have cr: "complete_record r" by (simp add: list_all_iff)
    have "map_of ex ?n = Some (kept_entry r)" using m Some by simp
    from max_lift_step_seen [OF c cr this]
    have step: "max_lift_step x ex = Inr (if weight_of r < weight_of x then ?new else ex)" .
    show ?thesis
    proof (cases "weight_of r < weight_of x")
      case True
      have "\<forall>y\<in>set (b @ r # a). weight_of y < weight_of x"
        using lt le True by auto
      from first_maximumI [of "?nm @ [x]" "b @ r # a" x "[]" weight_of, OF _ this] s
      have "heaviest_first ?n (done @ [x]) = Some x"
        by (simp add: heaviest_first_append Let_def)
      from new [OF this] step True distinct_dict_set [OF d] show ?thesis by simp
    next
      case False
      then have "\<forall>y\<in>set (a @ [x]). weight_of y \<le> weight_of r"
        using le by auto
      from first_maximumI [of "?nm @ [x]" b r "a @ [x]" weight_of, OF _ lt this] s
      have "heaviest_first ?n (done @ [x]) = Some r"
        by (simp add: heaviest_first_append Let_def)
      with Some have "heaviest_first ?n (done @ [x]) = heaviest_first ?n done" by simp
      from same [OF this] step False d show ?thesis by simp
    qed
  qed
qed

lemma max_lifts_invariant:
  "list_all complete_record records \<Longrightarrow> distinct (map fst ex) \<Longrightarrow>
   list_all complete_record done \<Longrightarrow>
   \<forall>name. map_of ex name = map_option kept_entry (heaviest_first name done) \<Longrightarrow>
   \<exists>ex'. max_lifts records ex = Inr ex' \<and> distinct (map fst ex') \<and>
     (\<forall>name. map_of ex' name = map_option kept_entry (heaviest_first name (done @ records)))"
proof (induction records arbitrary: ex "done")
  case Nil
  then show ?case by simp
next
  case (Cons x records)
  from Cons.prems(1) have c: "complete_record x" and cs: "list_all complete_record records"
    by simp_all
  from max_lift_step_invariant [OF c Cons.prems(2) Cons.prems(3) Cons.prems(4)]
  obtain ex1 where s: "max_lift_step x ex = Inr ex1" and d1: "distinct (map fst ex1)"
    and m1: "\<forall>name. map_of ex1 name = map_option kept_entry (heaviest_first name (done @ [x]))"
    by blast
  have "list_all complete_record (done @ [x])"
    using Cons.prems(3) c by simp
  from Cons.IH [OF cs d1 this m1] s show ?case by simp
qed

text \<open>
  C8. The claim: processing the workout records of the window in the order of the
  response (newest first), the aggregation keeps for each exercise name exactly the
  record with the highest weight, and among records of equal highest weight the one
  seen first; an older, heavier record beats a newer, lighter one. Proved for every
  list of complete records, in any order: the loop raises nothing, each name is a key
  once, and the entry kept for a name is the entry of \<open>heaviest_first\<close>, the first
  record of that name that no other exceeds; every earlier record of the name is
  strictly lighter and every later one at most as heavy.
\<close>

theorem max_lifts_keeps_first_heaviest:
  assumes "list_all complete_record records"
  shows "\<exists>exercises. max_lifts records [] = Inr exercises \<and> distinct (map fst exercises) \<and>
           (\<forall>name. map_of exercises name = map_option kept_entry (heaviest_first name records)) \<and>
           (\<forall>name r. heaviest_first name records = Some r \<longrightarrow>
              (\<exists>before after.
                 filter (\<lambda>x. exercise_of x = name) records = before @ r # after \<and>
                 (\<forall>x\<in>set before. weight_of x < weight_of r) \<and>
                 (\<forall>x\<in>set after. weight_of x \<le> weight_of r)))"
proof -
  have "heaviest_first name [] = None" for name
    by (simp add: heaviest_first_def)
  then have "\<forall>name. map_of [] name = map_option kept_entry (heaviest_first name [])"
    by simp
  from max_lifts_invariant [OF assms _ _ this, of]
  obtain ex where ex: "max_lifts records [] = Inr ex" "distinct (map fst ex)"
    "\<forall>name. map_of ex name = map_option kept_entry (heaviest_first name records)"
    by auto
  have "\<exists>before after.
          filter (\<lambda>x. exercise_of x = name) records = before @ r # after \<and>
          (\<forall>x\<in>set before. weight_of x < weight_of r) \<and>
          (\<forall>x\<in>set after. weight_of x \<le> weight_of r)"
    if "heaviest_first name records = Some r" for name r
    using that first_maximumD [of weight_of "filter (\<lambda>x. exercise_of x = name) records" r]
    by (simp add: heaviest_first_def Let_def)
  with ex show ?thesis by blast
qed

text \<open>
  The witness: three bench-press records, newest first, of 80 kg, 100 kg and 100.0 kg.
  The record of 2025-10-24 is kept: it is older and heavier than the first, and it
  comes before the third, which ties with it.
\<close>

theorem max_lifts_keeps_first_heaviest_witness:
  "list_all complete_record
     [[(''workout_date'', PStr ''2025-10-25''), (''exercise_name'', PStr ''Bench Press''),
       (''weight_kg'', PInt 80), (''repetitions'', PInt 5), (''sets'', PInt 1)],
      [(''workout_date'', PStr ''2025-10-24''), (''exercise_name'', PStr ''Bench Press''),
       (''weight_kg'', PInt 100), (''repetitions'', PInt 3), (''sets'', PInt 1)],
      [(''workout_date'', PStr ''2025-10-23''), (''exercise_name'', PStr ''Bench Press''),
       (''weight_kg'', PFloat 100), (''repetitions'', PInt 2), (''sets'', PInt 1)]] \<and>
   max_lifts
     [[(''workout_date'', PStr ''2025-10-25''), (''exercise_name'', PStr ''Bench Press''),
       (''weight_kg'', PInt 80), (''repetitions'', PInt 5), (''sets'', PInt 1)],
      [(''workout_date'', PStr ''2025-10-24''), (''exercise_name'', PStr ''Bench Press''),
       (''weight_kg'', PInt 100), (''repetitions'', PInt 3), (''sets'', PInt 1)],
      [(''workout_date'', PStr ''2025-10-23''), (''exercise_name'', PStr ''Bench Press''),
       (''weight_kg'', PFloat 100), (''repetitions'', PInt 2), (''sets'', PInt 1)]] [] =
     Inr [(PStr ''Bench Press'',
           [(''weight'', PInt 100), (''reps'', PInt 3), (''date'', PStr ''2025-10-24'')])] \<and>
   heaviest_first (PStr ''Bench Press'')
     [[(''workout_date'', PStr ''2025-10-25''), (''exercise_name'', PStr ''Bench Press''),
       (''weight_kg'', PInt 80), (''repetitions'', PInt 5), (''sets'', PInt 1)],
      [(''workout_date'', PStr ''2025-10-24''), (''exercise_name'', PStr ''Bench Press''),
       (''weight_kg'', PInt 100), (''repetitions'', PInt 3), (''sets'', PInt 1)],
      [(''workout_date'', PStr ''2025-10-23''), (''exercise_name'', PStr ''Bench Press''),
       (''weight_kg'', PFloat 100), (''repetitions'', PInt 2), (''sets'', PInt 1)]] =
     Some [(''workout_date'', PStr ''2025-10-24''), (''exercise_name'', PStr ''Bench Press''),
           (''weight_kg'', PInt 100), (''repetitions'', PInt 3), (''sets'', PInt 1)] \<and>
   map_of [(PStr ''Bench Press'',
            [(''weight'', PInt 100), (''reps'', PInt 3), (''date'', PStr ''2025-10-24'')])]
          (PStr ''Bench Press'') =
     map_option kept_entry
       (heaviest_first (PStr ''Bench Press'')
          [[(''workout_date'', PStr ''2025-10-25''), (''exercise_name'', PStr ''Bench Press''),
            (''weight_kg'', PInt 80), (''repetitions'', PInt 5), (''sets'', PInt 1)],
           [(''workout_date'', PStr ''2025-10-24''), (''exercise_name'', PStr ''Bench Press''),
            (''weight_kg'', PInt 100), (''repetitions'', PInt 3), (''sets'', PInt 1)],
           [(''workout_date'', PStr ''2025-10-23''), (''exercise_name'', PStr ''Bench Press''),
            (''weight_kg'', PFloat 100), (''repetitions'', PInt 2), (''sets'', PInt 1)]])"
proof -
  let ?a = "[(''workout_date'', PStr ''2025-10-25''), (''exercise_name'', PStr ''Bench Press''),
       (''weight_kg'', PInt 80), (''repetitions'', PInt 5), (''sets'', PInt 1)]"
  let ?b = "[(''workout_date'', PStr ''2025-10-24''), (''exercise_name'', PStr ''Bench Press''),
       (''weight_kg'', PInt 100), (''repetitions'', PInt 3), (''sets'', PInt 1)]"
  let ?c = "[(''workout_date'', PStr ''2025-10-23''), (''exercise_name'', PStr ''Bench Press''),
       (''weight_kg'', PFloat 100), (''repetitions'', PInt 2), (''sets'', PInt 1)]"
  have c: "list_all complete_record [?a, ?b, ?c]"
    by (simp add: complete_record_def weight_val_def dict_get_def)
  have m: "max_lifts [?a, ?b, ?c] [] =
     Inr [(PStr ''Bench Press'',
           [(''weight'', PInt 100), (''reps'', PInt 3), (''date'', PStr ''2025-10-24'')])]"
    by (simp add: max_lift_step_def dict_item_def dict_get_def py_gt_def Let_def)
  have h: "heaviest_first (PStr ''Bench Press'') [?a, ?b, ?c] = Some ?b"
    by (simp add: heaviest_first_def exercise_of_def weight_of_def weight_val_def dict_get_def Let_def)
  have k: "map_of [(PStr ''Bench Press'',
            [(''weight'', PInt 100), (''reps'', PInt 3), (''date'', PStr ''2025-10-24'')])]
          (PStr ''Bench Press'') =
     map_option kept_entry (heaviest_first (PStr ''Bench Press'') [?a, ?b, ?c])"
    using max_lifts_keeps_first_heaviest [OF c] unfolding m
    apply (elim exE conjE)
    apply (drule_tac x = "PStr ''Bench Press''" in spec)
    apply (drule sym [of "Inr _"])
    apply (simp only: sum.inject)
    done
  from c m h k show ?thesis by (intro conjI)
qed

section \<open>Logging a set\<close>

lemma frac_digits_zero: "frac_digits n 0 = []"
  by (cases n) simp_all

lemma py_gt_zero: "py_gt v (PInt 0) = Inr True \<longleftrightarrow> positive v"
  by (cases v) (auto simp: py_gt_def positive_def)

lemma valid_params_True:
  "valid_params ex wt r s = Inr True \<longleftrightarrow> (truthy ex \<and> positive wt \<and> positive r \<and> positive s)"
  using py_gt_zero [of wt] py_gt_zero [of r] py_gt_zero [of s]
  by (auto simp: valid_params_def split: sum.splits bool.splits)

lemma log_gym_set_invalid:
  assumes "\<not> valid_set E d ex wt r s"
  shows "(fst (log_gym_set E d ex wt r s w) = invalid_parameters \<or>
          fst (log_gym_set E d ex wt r s w) = internal_error) \<and>
         snd (log_gym_set E d ex wt r s w) = w"
proof (cases "parse_date E d")
  case (Inl e)
  then show ?thesis by (simp add: log_gym_set_def)
next
  case (Inr x)
  with assms have "valid_params ex wt r s \<noteq> Inr True"
    by (simp add: valid_set_def valid_params_True)
  with Inr show ?thesis
    by (cases "valid_params ex wt r s") (auto simp: log_gym_set_def split: bool.splits)
qed

lemma log_gym_set_valid:
  assumes "valid_set E d ex wt r s" and "db w = DbUp"
  shows "log_gym_set E d ex wt r s w =
     (logged_text E d ex wt r s,
      (log_event (Insert ''manual_workouts'') w)
        \<lparr>manual_workouts := manual_workouts w @ [workout_row d ex wt r s]\<rparr>)"
proof -
  from assms(1) obtain x where "parse_date E d = Inr x"
    by (cases "parse_date E d") (auto simp: valid_set_def)
  moreover from assms(1) have "valid_params ex wt r s = Inr True"
    by (simp add: valid_set_def valid_params_True)
  ultimately show ?thesis
    using assms(2) by (simp add: log_gym_set_def execute_insert_def Let_def log_event_def)
qed

lemma length_five: "length xs = 5 \<Longrightarrow> \<exists>a b c d e. xs = [a, b, c, d, e]"
  by (auto simp: length_Suc_conv eval_nat_numeral)

lemma log_gym_set_func_five:
  "log_gym_set_func E [d, ex, wt, r, s] w =
     (Inr (fst (log_gym_set E d ex wt r s w)), snd (log_gym_set E d ex wt r s w))"
  by (simp add: log_gym_set_func_def split_beta)

lemma log_gym_set_func_arity:
  "length args \<noteq> 5 \<Longrightarrow> isl (fst (log_gym_set_func E args w)) \<and> snd (log_gym_set_func E args w) = w"
  by (auto simp: log_gym_set_func_def split: list.splits)

lemma not_positive_string: "\<not> positive (PStr s)"
  by (simp add: positive_def)

lemma log_gym_set_func_strings:
  "snd (log_gym_set_func E (map PStr xs) w) = w"
proof (cases "length xs = 5")
  case True
  from length_five [OF this] obtain a b c d e where "xs = [a, b, c, d, e]" by blast
  then show ?thesis
    using log_gym_set_invalid [of E "PStr a" "PStr b" "PStr c" "PStr d" "PStr e" w]
    by (simp add: log_gym_set_func_five valid_set_def not_positive_string)
next
  case False
  then show ?thesis
    using log_gym_set_func_arity [of "map PStr xs" E w] by simp
qed

lemma log_gym_set_registered:
  "supabase_available E \<Longrightarrow>
   map_of (tools_dict E) ''log_gym_set'' = Some (snd (tools_dict E ! 2)) \<and>
   t_func (snd (tools_dict E ! 2)) = log_gym_set_func E"
  by (simp add: tools_dict_lookup tools_dict_funcs)

lemma tables_log_event: "tables (log_event e w) = tables w"
  by (simp add: tables_def log_event_def)

lemma dispatch_log_gym_set_uncoerced:
  assumes "t_func t = log_gym_set_func E" and "isl (typed_inputs E inputs)"
  shows "isl (fst (dispatch E ''log_gym_set'' t inputs w)) \<and>
         tables (snd (dispatch E ''log_gym_set'' t inputs w)) = tables w"
proof -
  let ?clean = "map PStr (filter (\<lambda>i. i \<noteq> []) inputs)"
  let ?w0 = "log_event (Invoke ''log_gym_set'' ?clean) w"
  have c: "call ''log_gym_set'' t ?clean w =
      (fst (log_gym_set_func E ?clean ?w0), ?w0)"
    using log_gym_set_func_strings [of E "filter (\<lambda>i. i \<noteq> []) inputs" ?w0]
    by (simp add: call_def assms(1) prod_eq_iff)
  from assms(2) obtain e where e: "typed_inputs E inputs = Inl e"
    by (cases "typed_inputs E inputs") auto
  show ?thesis
    by (cases "fst (log_gym_set_func E ?clean ?w0)")
       (simp_all add: dispatch_def c branch_inputs_def e tables_log_event)
qed

lemma execution_stage_uncoerced:
  assumes sa: "supabase_available E"
    and st: "startswith decision ''ACTION: TOOL_CALL''"
    and p: "parse_tool_call decision = Inr (''log_gym_set'', inputs)"
    and ty: "isl (typed_inputs E inputs)"
  shows "(\<exists>m. fst (execution_stage E invoke q decision w) = execution_error m) \<and>
         tables (snd (execution_stage E invoke q decision w)) = tables w"
proof -
  let ?t = "snd (tools_dict E ! 2)"
  from log_gym_set_registered [OF sa]
  have reg: "map_of (tools_dict E) ''log_gym_set'' = Some ?t" and f: "t_func ?t = log_gym_set_func E"
    by simp_all
  obtain r1 w1 where d: "dispatch E ''log_gym_set'' ?t inputs w = (r1, w1)"
    by (cases "dispatch E ''log_gym_set'' ?t inputs w")
  from dispatch_log_gym_set_uncoerced [OF f ty, of w] d
  have "isl r1" and tb: "tables w1 = tables w" by simp_all
  then obtain m where m: "r1 = Inl m" by (cases r1) auto
  have "tool_call E invoke q decision w = (Inl m, w1)"
    by (simp add: tool_call_def p reg d m)
  then have "execution_stage E invoke q decision w = (execution_error m, w1)"
    by (simp add: execution_stage_tool_call [OF st])
  with tb show ?thesis by auto
qed

text \<open>
  C7. The claim: a call of \<^verbatim>\<open>log_gym_set\<close> with an empty exercise name, with a
  weight, repetition count or set number that is not positive, or whose arguments
  cannot be coerced, returns an error text and writes nothing; a valid call with five
  arguments inserts exactly one record and returns the confirmation. Proved in three
  parts. A call that does not pass the checks of the tool (which include the parse of
  the date) returns one of the tool's two error texts and leaves the world as it was.
  A call that passes them, on a store that accepts the insert, returns the
  confirmation and appends exactly the new record to the workout table. And when the
  coercion of the decision's fields fails, the execution stage returns the error reply
  and the three tables are unchanged: the call with the uncoerced fields, made before
  the coercion, has written nothing.
\<close>

theorem log_gym_set_validates_then_inserts:
  "(\<not> valid_set E d ex wt r s \<longrightarrow>
      (fst (log_gym_set E d ex wt r s w) = invalid_parameters \<or>
       fst (log_gym_set E d ex wt r s w) = internal_error) \<and>
      snd (log_gym_set E d ex wt r s w) = w) \<and>
   (valid_set E d ex wt r s \<and> db w = DbUp \<longrightarrow>
      fst (log_gym_set E d ex wt r s w) = logged_text E d ex wt r s \<and>
      tables (snd (log_gym_set E d ex wt r s w)) =
        (oura_sleep w, oura_activity w, manual_workouts w @ [workout_row d ex wt r s])) \<and>
   (supabase_available E \<and> startswith decision ''ACTION: TOOL_CALL'' \<and>
    parse_tool_call decision = Inr (''log_gym_set'', inputs) \<and> isl (typed_inputs E inputs) \<longrightarrow>
      (\<exists>m. fst (execution_stage E invoke q decision w) = execution_error m) \<and>
      tables (snd (execution_stage E invoke q decision w)) = tables w)"
proof -
  have a: "\<not> valid_set E d ex wt r s \<longrightarrow>
      (fst (log_gym_set E d ex wt r s w) = invalid_parameters \<or>
       fst (log_gym_set E d ex wt r s w) = internal_error) \<and>
      snd (log_gym_set E d ex wt r s w) = w"
    using log_gym_set_invalid [of E d ex wt r s w] by simp
  have b: "valid_set E d ex wt r s \<and> db w = DbUp \<longrightarrow>
      fst (log_gym_set E d ex wt r s w) = logged_text E d ex wt r s \<and>
      tables (snd (log_gym_set E d ex wt r s w)) =
        (oura_sleep w, oura_activity w, manual_workouts w @ [workout_row d ex wt r s])"
    using log_gym_set_valid [of E d ex wt r s w]
    by (simp add: tables_def log_event_def)
  have c: "supabase_available E \<and> startswith decision ''ACTION: TOOL_CALL'' \<and>
    parse_tool_call decision = Inr (''log_gym_set'', inputs) \<and> isl (typed_inputs E inputs) \<longrightarrow>
      (\<exists>m. fst (execution_stage E invoke q decision w) = execution_error m) \<and>
      tables (snd (execution_stage E invoke q decision w)) = tables w"
    using execution_stage_uncoerced [of E decision inputs invoke q w] by simp
  from a b c show ?thesis by (intro conjI)
qed

text \<open>
  The witness: a weight of zero and a negative repetition count are refused and leave
  the world unchanged; 100.0 kg, 5 repetitions, set 3 of squats is logged; and the
  decision whose weight field is \<^verbatim>\<open>heavy\<close> ends in the error reply with the
  tables unchanged.
\<close>

theorem log_gym_set_validates_then_inserts_witness:
  "\<not> valid_set (sample_env (Inr []) (Inr [])) (PStr ''2025-10-25'') (PStr ''Squat'') (PFloat 0) (PInt 5) (PInt 3) \<and>
   log_gym_set (sample_env (Inr []) (Inr [])) (PStr ''2025-10-25'') (PStr ''Squat'') (PFloat 0) (PInt 5) (PInt 3)
     sample_world = (invalid_parameters, sample_world) \<and>
   \<not> valid_set (sample_env (Inr []) (Inr [])) (PStr ''2025-10-25'') (PStr ''Squat'') (PFloat 100) (PInt (- 5)) (PInt 3) \<and>
   log_gym_set (sample_env (Inr []) (Inr [])) (PStr ''2025-10-25'') (PStr ''Squat'') (PFloat 100) (PInt (- 5)) (PInt 3)
     sample_world = (invalid_parameters, sample_world) \<and>
   valid_set (sample_env (Inr []) (Inr [])) (PStr ''2025-10-25'') (PStr ''Squat'') (PFloat 100) (PInt 5) (PInt 3) \<and>
   db sample_world = DbUp \<and>
   fst (log_gym_set (sample_env (Inr []) (Inr [])) (PStr ''2025-10-25'') (PStr ''Squat'') (PFloat 100) (PInt 5) (PInt 3)
     sample_world) = ''Successfully logged Set 3 of Squat (100.0kg x 5 reps) for 2025-10-25.'' \<and>
   tables (snd (log_gym_set (sample_env (Inr []) (Inr [])) (PStr ''2025-10-25'') (PStr ''Squat'') (PFloat 100) (PInt 5) (PInt 3)
     sample_world)) =
     (oura_sleep sample_world, oura_activity sample_world,
      manual_workouts sample_world @
        [[(''workout_date'', PStr ''2025-10-25''), (''exercise_name'', PStr ''Squat''),
          (''weight_kg'', PFloat 100), (''repetitions'', PInt 5), (''sets'', PInt 3)]]) \<and>
   supabase_available (sample_env (Inr []) (Inr [])) \<and>
   startswith ''ACTION: TOOL_CALL | log_gym_set | 2025-10-25 | Squat | heavy | 5 | 3'' ''ACTION: TOOL_CALL'' \<and>
   parse_tool_call ''ACTION: TOOL_CALL | log_gym_set | 2025-10-25 | Squat | heavy | 5 | 3'' =
     Inr (''log_gym_set'', [''2025-10-25'', ''Squat'', ''heavy'', ''5'', ''3'']) \<and>
   isl (typed_inputs (sample_env (Inr []) (Inr [])) [''2025-10-25'', ''Squat'', ''heavy'', ''5'', ''3'']) \<and>
   (\<exists>m. fst (execution_stage (sample_env (Inr []) (Inr [])) (scripted (Inr []) (Inr []))
            ''Log my squats''
            ''ACTION: TOOL_CALL | log_gym_set | 2025-10-25 | Squat | heavy | 5 | 3'' sample_world) =
        execution_error m) \<and>
   tables (snd (execution_stage (sample_env (Inr []) (Inr [])) (scripted (Inr []) (Inr []))
            ''Log my squats''
            ''ACTION: TOOL_CALL | log_gym_set | 2025-10-25 | Squat | heavy | 5 | 3'' sample_world)) =
     tables sample_world"
proof -
  let ?E = "sample_env (Inr []) (Inr [])"
  let ?d = "''ACTION: TOOL_CALL | log_gym_set | 2025-10-25 | Squat | heavy | 5 | 3''"
  have pd: "parse_date ?E (PStr ''2025-10-25'') = Inr 739549"
    by (simp add: parse_date_def sample_env_def parse_2025_10_25)
  have v0: "\<not> valid_set ?E (PStr ''2025-10-25'') (PStr ''Squat'') (PFloat 0) (PInt 5) (PInt 3)"
    and v1: "\<not> valid_set ?E (PStr ''2025-10-25'') (PStr ''Squat'') (PFloat 100) (PInt (- 5)) (PInt 3)"
    and v2: "valid_set ?E (PStr ''2025-10-25'') (PStr ''Squat'') (PFloat 100) (PInt 5) (PInt 3)"
    by (simp_all add: valid_set_def positive_def pd)
  have r0: "fst (log_gym_set ?E (PStr ''2025-10-25'') (PStr ''Squat'') (PFloat 0) (PInt 5) (PInt 3) sample_world)
       = invalid_parameters"
    and r1: "fst (log_gym_set ?E (PStr ''2025-10-25'') (PStr ''Squat'') (PFloat 100) (PInt (- 5)) (PInt 3) sample_world)
       = invalid_parameters"
    by (simp_all add: log_gym_set_def pd valid_params_def py_gt_def)
  have sa: "supabase_available ?E" by (simp add: sample_env_def)
  have st: "startswith ?d ''ACTION: TOOL_CALL''" by simp
  have p: "parse_tool_call ?d = Inr (''log_gym_set'', [''2025-10-25'', ''Squat'', ''heavy'', ''5'', ''3''])"
    by (simp add: parse_tool_call_def list_item_def strip_def is_space_def)
  have ty: "isl (typed_inputs ?E [''2025-10-25'', ''Squat'', ''heavy'', ''5'', ''3''])"
    by (simp add: typed_inputs_def list_item_def sample_env_def float_plain_def unsigned_def is_digit_def)
  have lt: "logged_text ?E (PStr ''2025-10-25'') (PStr ''Squat'') (PFloat 100) (PInt 5) (PInt 3) =
      ''Successfully logged Set 3 of Squat (100.0kg x 5 reps) for 2025-10-25.''"
    by (simp add: logged_text_def sample_env_def float_text_def str_int_def digits.simps digit_def
        frac_digits_zero)
  note t0 = log_gym_set_validates_then_inserts
    [of ?E "PStr ''2025-10-25''" "PStr ''Squat''" "PFloat 0" "PInt 5" "PInt 3" sample_world]
  note t1 = log_gym_set_validates_then_inserts
    [of ?E "PStr ''2025-10-25''" "PStr ''Squat''" "PFloat 100" "PInt (- 5)" "PInt 3" sample_world]
  note t2 = log_gym_set_validates_then_inserts
    [of ?E "PStr ''2025-10-25''" "PStr ''Squat''" "PFloat 100" "PInt 5" "PInt 3" sample_world
        ?d "[''2025-10-25'', ''Squat'', ''heavy'', ''5'', ''3'']" "scripted (Inr []) (Inr [])"
        "''Log my squats''"]
  have a: "log_gym_set ?E (PStr ''2025-10-25'') (PStr ''Squat'') (PFloat 0) (PInt 5) (PInt 3)
     sample_world = (invalid_parameters, sample_world)"
    using conjunct1 [OF t0] v0 r0 by (simp add: prod_eq_iff)
  have b: "log_gym_set ?E (PStr ''2025-10-25'') (PStr ''Squat'') (PFloat 100) (PInt (- 5)) (PInt 3)
     sample_world = (invalid_parameters, sample_world)"
    using conjunct1 [OF t1] v1 r1 by (simp add: prod_eq_iff)
  have c: "fst (log_gym_set ?E (PStr ''2025-10-25'') (PStr ''Squat'') (PFloat 100) (PInt 5) (PInt 3)
     sample_world) = ''Successfully logged Set 3 of Squat (100.0kg x 5 reps) for 2025-10-25.'' \<and>
     tables (snd (log_gym_set ?E (PStr ''2025-10-25'') (PStr ''Squat'') (PFloat 100) (PInt 5) (PInt 3)
     sample_world)) =
     (oura_sleep sample_world, oura_activity sample_world,
      manual_workouts sample_world @
        [[(''workout_date'', PStr ''2025-10-25''), (''exercise_name'', PStr ''Squat''),
          (''weight_kg'', PFloat 100), (''repetitions'', PInt 5), (''sets'', PInt 3)]])"
    using conjunct1 [OF conjunct2 [OF t2]] v2 sample_world_facts(1) by (simp add: lt workout_row_def)
  have d: "(\<exists>m. fst (execution_stage ?E (scripted (Inr []) (Inr [])) ''Log my squats'' ?d sample_world) =
        execution_error m) \<and>
     tables (snd (execution_stage ?E (scripted (Inr []) (Inr [])) ''Log my squats'' ?d sample_world)) =
     tables sample_world"
    using conjunct2 [OF conjunct2 [OF t2]] sa st p ty by simp
  from c have c1: "fst (log_gym_set ?E (PStr ''2025-10-25'') (PStr ''Squat'') (PFloat 100) (PInt 5) (PInt 3)
     sample_world) = ''Successfully logged Set 3 of Squat (100.0kg x 5 reps) for 2025-10-25.''"
    and c2: "tables (snd (log_gym_set ?E (PStr ''2025-10-25'') (PStr ''Squat'') (PFloat 100) (PInt 5) (PInt 3)
     sample_world)) =
     (oura_sleep sample_world, oura_activity sample_world,
      manual_workouts sample_world @
        [[(''workout_date'', PStr ''2025-10-25''), (''exercise_name'', PStr ''Squat''),
          (''weight_kg'', PFloat 100), (''repetitions'', PInt 5), (''sets'', PInt 3)]])"
    by (rule conjunct1, rule conjunct2)
  from d have d1: "\<exists>m. fst (execution_stage ?E (scripted (Inr []) (Inr [])) ''Log my squats'' ?d sample_world) =
        execution_error m"
    and d2: "tables (snd (execution_stage ?E (scripted (Inr []) (Inr [])) ''Log my squats'' ?d sample_world)) =
     tables sample_world"
    by (rule conjunct1, rule conjunct2)
  from v0 a v1 b v2 sample_world_facts(1) c1 c2 sa st p ty d1 d2 show ?thesis
    by (intro conjI)
qed

section \<open>The two invocations of the dispatch stage\<close>

lemma store_trace_refl: "store_trace w w"
  by (simp add: store_trace_def)

lemma store_trace_trans: "store_trace a b \<Longrightarrow> store_trace b c \<Longrightarrow> store_trace a c"
  by (auto simp: store_trace_def)

lemma select_store_trace: "execute_select tbl cols flt post w = (r, w') \<Longrightarrow> store_trace w w'"
  by (auto simp: execute_select_def store_trace_def log_event_def Let_def split: db_mode.splits)

lemma insert_store_trace: "execute_insert data w = (r, w') \<Longrightarrow> store_trace w w'"
  by (auto simp: execute_insert_def store_trace_def log_event_def Let_def split: db_mode.splits)

lemma sleep_score_store_trace: "store_trace w (snd (get_oura_sleep_score E day w))"
  by (auto simp: get_oura_sleep_score_def store_trace_refl
      dest: select_store_trace split: sum.splits prod.splits list.splits)

lemma activity_store_trace: "store_trace w (snd (get_oura_activity_steps E day w))"
  by (auto simp: get_oura_activity_steps_def store_trace_refl
      dest: select_store_trace split: sum.splits prod.splits list.splits)

lemma log_gym_set_store_trace: "store_trace w (snd (log_gym_set E d ex wt r s w))"
  by (auto simp: log_gym_set_def store_trace_refl
      dest: insert_store_trace split: sum.splits prod.splits bool.splits option.splits)

lemma readiness_report_store_trace: "store_trace w (snd (readiness_report E start end w))"
  by (auto simp: readiness_report_def
      dest!: select_store_trace intro: store_trace_trans split: sum.splits prod.splits)

lemma get_readiness_report_store_trace:
  "store_trace w (snd (get_readiness_report E sd ed w))"
proof (cases "window_start E sd (window_end E ed)")
  case (Inl e)
  then show ?thesis by (simp add: get_readiness_report_def store_trace_refl Let_def)
next
  case (Inr s)
  then show ?thesis
    using readiness_report_store_trace [of w E s "window_end E ed"]
    by (simp add: get_readiness_report_def store_trace_refl Let_def split_beta)
qed

lemma registered_tool_store_trace:
  assumes "map_of (tools_dict E) name = Some t"
  shows "store_trace w (snd (t_func t args w))"
proof -
  have f: "store_trace w (snd (get_oura_sleep_score_func E args w))"
    "store_trace w (snd (get_oura_activity_steps_func E args w))"
    "store_trace w (snd (log_gym_set_func E args w))"
    "store_trace w (snd (get_readiness_report_func E args w))"
    using sleep_score_store_trace [of w E] activity_store_trace [of w E]
      log_gym_set_store_trace [of w E] get_readiness_report_store_trace [of w E]
    by (simp_all add: get_oura_sleep_score_func_def get_oura_activity_steps_func_def
        log_gym_set_func_def get_readiness_report_func_def store_trace_refl split_beta
        split: list.splits)
  have "(name = ''get_oura_sleep_score'' \<and> t_func t = get_oura_sleep_score_func E) \<or>
    (name = ''get_oura_activity_steps'' \<and> t_func t = get_oura_activity_steps_func E) \<or>
    (name = ''log_gym_set'' \<and> t_func t = log_gym_set_func E) \<or>
    (name = ''get_readiness_report'' \<and> t_func t = get_readiness_report_func E)"
    using registered_tool_cases [OF assms] by (rule conjunct2)
  then show ?thesis
    using f by (elim disjE conjE) simp_all
qed

lemma call_trace:
  assumes "map_of (tools_dict E) name = Some t"
  shows "\<exists>evs. events (snd (call name t args w)) = events w @ Invoke name args # evs \<and>
               list_all is_round_trip evs"
  using registered_tool_store_trace [OF assms, of "log_event (Invoke name args) w" args]
  by (auto simp: call_def store_trace_def log_event_def)

lemma dispatch_first_fails:
  "isl (fst (call name t (map PStr (filter (\<lambda>i. i \<noteq> []) inputs)) w)) \<or>
   isl (branch_inputs E name inputs) \<Longrightarrow>
   snd (dispatch E name t inputs w) = snd (call name t (map PStr (filter (\<lambda>i. i \<noteq> []) inputs)) w) \<and>
   isl (fst (dispatch E name t inputs w))"
  by (auto simp: dispatch_def Let_def split: sum.splits prod.splits)

lemma dispatch_second_call:
  "\<not> isl (fst (call name t (map PStr (filter (\<lambda>i. i \<noteq> []) inputs)) w)) \<Longrightarrow>
   branch_inputs E name inputs = Inr args \<Longrightarrow>
   dispatch E name t inputs w =
     call name t args (snd (call name t (map PStr (filter (\<lambda>i. i \<noteq> []) inputs)) w))"
  by (auto simp: dispatch_def Let_def split: sum.splits prod.splits)

lemma typed_inputs_five:
  assumes "typed_inputs E inputs = Inr [d, ex, wt, r, s]" and "length inputs = 5"
  shows "\<exists>a b c e f. inputs = [a, b, c, e, f] \<and> d = PStr a \<and> ex = PStr b"
proof -
  from length_five [OF assms(2)] obtain a b c e f where i: "inputs = [a, b, c, e, f]" by blast
  with assms(1) have "d = PStr a \<and> ex = PStr b"
    by (auto simp: typed_inputs_def list_item_def split: sum.splits)
  with i show ?thesis by blast
qed

lemma log_gym_set_uncoerced:
  assumes "\<not> isl (parse_date E (PStr a))" and "b \<noteq> []"
  shows "log_gym_set E (PStr a) (PStr b) (PStr c) (PStr e) (PStr f) w = (internal_error, w)"
proof -
  from assms(1) obtain x where "parse_date E (PStr a) = Inr x"
    by (cases "parse_date E (PStr a)") auto
  then show ?thesis
    using assms(2) by (simp add: log_gym_set_def valid_params_def py_gt_def)
qed

lemma dispatch_valid_log_gym_set:
  assumes f: "t_func t = log_gym_set_func E"
    and n: "list_all (\<lambda>i. i \<noteq> []) inputs" and l: "length inputs = 5"
    and ty: "typed_inputs E inputs = Inr [d, ex, wt, r, s]"
    and v: "valid_set E d ex wt r s" and up: "db w = DbUp"
  shows "fst (call ''log_gym_set'' t (map PStr (filter (\<lambda>i. i \<noteq> []) inputs)) w) = Inr internal_error \<and>
         tables (snd (call ''log_gym_set'' t (map PStr (filter (\<lambda>i. i \<noteq> []) inputs)) w)) = tables w \<and>
         fst (dispatch E ''log_gym_set'' t inputs w) = Inr (logged_text E d ex wt r s) \<and>
         tables (snd (dispatch E ''log_gym_set'' t inputs w)) =
           (oura_sleep w, oura_activity w, manual_workouts w @ [workout_row d ex wt r s])"
proof -
  from typed_inputs_five [OF ty l] obtain a b c e g where
    i: "inputs = [a, b, c, e, g]" and d: "d = PStr a" and ex: "ex = PStr b"
    by blast
  have clean: "filter (\<lambda>i. i \<noteq> []) inputs = inputs"
    using n by (simp add: list_all_iff)
  let ?w0 = "log_event (Invoke ''log_gym_set'' (map PStr inputs)) w"
  have pa: "\<not> isl (parse_date E (PStr a))" and bn: "b \<noteq> []"
    using v d ex by (simp_all add: valid_set_def)
  have first: "call ''log_gym_set'' t (map PStr inputs) w = (Inr internal_error, ?w0)"
    using log_gym_set_uncoerced [OF pa bn, of c e g ?w0]
    by (simp add: call_def f i log_gym_set_func_five)
  let ?w1 = "log_event (Invoke ''log_gym_set'' [d, ex, wt, r, s]) ?w0"
  have up1: "db ?w1 = DbUp" using up by (simp add: log_event_def)
  have second: "call ''log_gym_set'' t [d, ex, wt, r, s] ?w0 =
      (Inr (logged_text E d ex wt r s),
       (log_event (Insert ''manual_workouts'') ?w1)
         \<lparr>manual_workouts := manual_workouts ?w1 @ [workout_row d ex wt r s]\<rparr>)"
    using log_gym_set_valid [OF v up1]
    by (simp add: call_def f log_gym_set_func_five)
  have disp: "dispatch E ''log_gym_set'' t inputs w = call ''log_gym_set'' t [d, ex, wt, r, s] ?w0"
    by (simp add: dispatch_def clean first branch_inputs_def ty)
  show ?thesis
    unfolding clean disp second first
    by (simp add: tables_def log_event_def)
qed

text \<open>
  C10. The claim: for every tool-call decision that names a registered tool, the
  dispatch stage invokes the tool's function twice, first with the non-empty fields as
  strings and then as the branch of the tool prescribes, and the second result is the
  one used; and for a valid call of \<^verbatim>\<open>log_gym_set\<close> with five arguments the first
  invocation fails inside the tool without inserting, so that exactly one record is
  inserted. The second half holds. The first does not hold for every decision: when
  the first call raises (the number of non-empty fields does not fit the function) or
  the branch cannot prepare its arguments (a field is missing or cannot be coerced),
  the exception goes to the handler and the tool is not invoked again.

  As amended: the dispatch stage always invokes a registered tool with the non-empty
  fields as strings; when this call raises or the arguments of the branch cannot be
  prepared, dispatch raises and there is no second invocation; otherwise it invokes
  the tool a second time with the arguments of the branch, directly after the first
  invocation, and the result of the second invocation is the result of dispatch. For
  \<^verbatim>\<open>log_gym_set\<close> with five non-empty fields that coerce to a valid call, on a
  store that accepts the insert, the first invocation returns the tool's internal
  error text and leaves the tables unchanged, and the second returns the confirmation
  and appends exactly one record.
\<close>

theorem dispatch_invokes_the_tool_again:
  assumes reg: "map_of (tools_dict E) name = Some t"
  shows
   "(\<exists>evs1. list_all is_round_trip evs1 \<and>
       events (snd (call name t (map PStr (filter (\<lambda>i. i \<noteq> []) inputs)) w)) =
         events w @ Invoke name (map PStr (filter (\<lambda>i. i \<noteq> []) inputs)) # evs1) \<and>
    (isl (fst (call name t (map PStr (filter (\<lambda>i. i \<noteq> []) inputs)) w)) \<or>
     isl (branch_inputs E name inputs) \<longrightarrow>
       isl (fst (dispatch E name t inputs w)) \<and>
       snd (dispatch E name t inputs w) =
         snd (call name t (map PStr (filter (\<lambda>i. i \<noteq> []) inputs)) w)) \<and>
    (\<not> isl (fst (call name t (map PStr (filter (\<lambda>i. i \<noteq> []) inputs)) w)) \<and>
     branch_inputs E name inputs = Inr args \<longrightarrow>
       dispatch E name t inputs w =
         call name t args (snd (call name t (map PStr (filter (\<lambda>i. i \<noteq> []) inputs)) w)) \<and>
       (\<exists>evs2. list_all is_round_trip evs2 \<and>
          events (snd (dispatch E name t inputs w)) =
            events (snd (call name t (map PStr (filter (\<lambda>i. i \<noteq> []) inputs)) w)) @
            Invoke name args # evs2)) \<and>
    (name = ''log_gym_set'' \<and> length inputs = 5 \<and> list_all (\<lambda>i. i \<noteq> []) inputs \<and>
     typed_inputs E inputs = Inr [d, ex, wt, r, s] \<and> valid_set E d ex wt r s \<and> db w = DbUp \<longrightarrow>
       fst (call name t (map PStr (filter (\<lambda>i. i \<noteq> []) inputs)) w) = Inr internal_error \<and>
       tables (snd (call name t (map PStr (filter (\<lambda>i. i \<noteq> []) inputs)) w)) = tables w \<and>
       fst (dispatch E name t inputs w) = Inr (logged_text E d ex wt r s) \<and>
       tables (snd (dispatch E name t inputs w)) =
         (oura_sleep w, oura_activity w, manual_workouts w @ [workout_row d ex wt r s]))"
proof -
  let ?first = "call name t (map PStr (filter (\<lambda>i. i \<noteq> []) inputs)) w"
  have a: "\<exists>evs1. list_all is_round_trip evs1 \<and>
       events (snd ?first) = events w @ Invoke name (map PStr (filter (\<lambda>i. i \<noteq> []) inputs)) # evs1"
    using call_trace [OF reg, of "map PStr (filter (\<lambda>i. i \<noteq> []) inputs)" w] by blast
  have b: "isl (fst ?first) \<or> isl (branch_inputs E name inputs) \<longrightarrow>
       isl (fst (dispatch E name t inputs w)) \<and> snd (dispatch E name t inputs w) = snd ?first"
    using dispatch_first_fails [of name t inputs w E] by simp
  have c: "\<not> isl (fst ?first) \<and> branch_inputs E name inputs = Inr args \<longrightarrow>
       dispatch E name t inputs w = call name t args (snd ?first) \<and>
       (\<exists>evs2. list_all is_round_trip evs2 \<and>
          events (snd (dispatch E name t inputs w)) = events (snd ?first) @ Invoke name args # evs2)"
  proof (intro impI, elim conjE)
    assume h: "\<not> isl (fst ?first)" "branch_inputs E name inputs = Inr args"
    from dispatch_second_call [OF h] have e: "dispatch E name t inputs w = call name t args (snd ?first)" .
    from call_trace [OF reg, of args "snd ?first"] e
    show "dispatch E name t inputs w = call name t args (snd ?first) \<and>
       (\<exists>evs2. list_all is_round_trip evs2 \<and>
          events (snd (dispatch E name t inputs w)) = events (snd ?first) @ Invoke name args # evs2)"
      by auto
  qed
  have d: "name = ''log_gym_set'' \<and> length inputs = 5 \<and> list_all (\<lambda>i. i \<noteq> []) inputs \<and>
     typed_inputs E inputs = Inr [d, ex, wt, r, s] \<and> valid_set E d ex wt r s \<and> db w = DbUp \<longrightarrow>
       fst ?first = Inr internal_error \<and> tables (snd ?first) = tables w \<and>
       fst (dispatch E name t inputs w) = Inr (logged_text E d ex wt r s) \<and>
       tables (snd (dispatch E name t inputs w)) =
         (oura_sleep w, oura_activity w, manual_workouts w @ [workout_row d ex wt r s])"
  proof (intro impI, elim conjE)
    assume h: "name = ''log_gym_set''" "length inputs = 5" "list_all (\<lambda>i. i \<noteq> []) inputs"
      "typed_inputs E inputs = Inr [d, ex, wt, r, s]" "valid_set E d ex wt r s" "db w = DbUp"
    have sa: "supabase_available E"
      using registered_tool_cases [OF reg] by (rule conjunct1)
    from log_gym_set_registered [OF sa] reg h(1) have f: "t_func t = log_gym_set_func E"
      by simp
    from dispatch_valid_log_gym_set [OF f h(3) h(2) h(4) h(5) h(6)] h(1)
    show "fst ?first = Inr internal_error \<and> tables (snd ?first) = tables w \<and>
       fst (dispatch E name t inputs w) = Inr (logged_text E d ex wt r s) \<and>
       tables (snd (dispatch E name t inputs w)) =
         (oura_sleep w, oura_activity w, manual_workouts w @ [workout_row d ex wt r s])"
      by simp
  qed
  from a b c d show ?thesis by (intro conjI)
qed

text \<open>
  The witness: the fields of a valid squat set, for which the first invocation returns
  the internal error text and the second logs the set, and the same fields with the
  weight \<^verbatim>\<open>heavy\<close>, for which dispatch raises after the first invocation.
\<close>

theorem dispatch_invokes_the_tool_again_witness:
  "map_of (tools_dict (sample_env (Inr []) (Inr []))) ''log_gym_set'' =
     Some (snd (tools_dict (sample_env (Inr []) (Inr [])) ! 2)) \<and>
   length [''2025-10-25'', ''Squat'', ''100.0'', ''5'', ''3''] = 5 \<and>
   list_all (\<lambda>i. i \<noteq> []) [''2025-10-25'', ''Squat'', ''100.0'', ''5'', ''3''] \<and>
   typed_inputs (sample_env (Inr []) (Inr [])) [''2025-10-25'', ''Squat'', ''100.0'', ''5'', ''3''] =
     Inr [PStr ''2025-10-25'', PStr ''Squat'', PFloat 100, PInt 5, PInt 3] \<and>
   valid_set (sample_env (Inr []) (Inr [])) (PStr ''2025-10-25'') (PStr ''Squat'') (PFloat 100) (PInt 5) (PInt 3) \<and>
   db sample_world = DbUp \<and>
   fst (call ''log_gym_set'' (snd (tools_dict (sample_env (Inr []) (Inr [])) ! 2))
          [PStr ''2025-10-25'', PStr ''Squat'', PStr ''100.0'', PStr ''5'', PStr ''3''] sample_world) =
     Inr internal_error \<and>
   tables (snd (call ''log_gym_set'' (snd (tools_dict (sample_env (Inr []) (Inr [])) ! 2))
          [PStr ''2025-10-25'', PStr ''Squat'', PStr ''100.0'', PStr ''5'', PStr ''3''] sample_world)) =
     tables sample_world \<and>
   dispatch (sample_env (Inr []) (Inr [])) ''log_gym_set'' (snd (tools_dict (sample_env (Inr []) (Inr [])) ! 2))
       [''2025-10-25'', ''Squat'', ''100.0'', ''5'', ''3''] sample_world =
     call ''log_gym_set'' (snd (tools_dict (sample_env (Inr []) (Inr [])) ! 2))
       [PStr ''2025-10-25'', PStr ''Squat'', PFloat 100, PInt 5, PInt 3]
       (snd (call ''log_gym_set'' (snd (tools_dict (sample_env (Inr []) (Inr [])) ! 2))
          [PStr ''2025-10-25'', PStr ''Squat'', PStr ''100.0'', PStr ''5'', PStr ''3''] sample_world)) \<and>
   fst (dispatch (sample_env (Inr []) (Inr [])) ''log_gym_set'' (snd (tools_dict (sample_env (Inr []) (Inr [])) ! 2))
       [''2025-10-25'', ''Squat'', ''100.0'', ''5'', ''3''] sample_world) =
     Inr ''Successfully logged Set 3 of Squat (100.0kg x 5 reps) for 2025-10-25.'' \<and>
   tables (snd (dispatch (sample_env (Inr []) (Inr [])) ''log_gym_set''
       (snd (tools_dict (sample_env (Inr []) (Inr [])) ! 2))
       [''2025-10-25'', ''Squat'', ''100.0'', ''5'', ''3''] sample_world)) =
     (oura_sleep sample_world, oura_activity sample_world,
      manual_workouts sample_world @
        [[(''workout_date'', PStr ''2025-10-25''), (''exercise_name'', PStr ''Squat''),
          (''weight_kg'', PFloat 100), (''repetitions'', PInt 5), (''sets'', PInt 3)]]) \<and>
   isl (branch_inputs (sample_env (Inr []) (Inr [])) ''log_gym_set''
          [''2025-10-25'', ''Squat'', ''heavy'', ''5'', ''3'']) \<and>
   isl (fst (dispatch (sample_env (Inr []) (Inr [])) ''log_gym_set''
       (snd (tools_dict (sample_env (Inr []) (Inr [])) ! 2))
       [''2025-10-25'', ''Squat'', ''heavy'', ''5'', ''3''] sample_world)) \<and>
   snd (dispatch (sample_env (Inr []) (Inr [])) ''log_gym_set''
       (snd (tools_dict (sample_env (Inr []) (Inr [])) ! 2))
       [''2025-10-25'', ''Squat'', ''heavy'', ''5'', ''3''] sample_world) =
     snd (call ''log_gym_set'' (snd (tools_dict (sample_env (Inr []) (Inr [])) ! 2))
          [PStr ''2025-10-25'', PStr ''Squat'', PStr ''heavy'', PStr ''5'', PStr ''3''] sample_world)"
proof -
  let ?E = "sample_env (Inr []) (Inr [])"
  let ?t = "snd (tools_dict ?E ! 2)"
  let ?ok = "[''2025-10-25'', ''Squat'', ''100.0'', ''5'', ''3'']"
  let ?bad = "[''2025-10-25'', ''Squat'', ''heavy'', ''5'', ''3'']"
  have sa: "supabase_available ?E" by (simp add: sample_env_def)
  have reg: "map_of (tools_dict ?E) ''log_gym_set'' = Some ?t"
    using log_gym_set_registered [OF sa] by (rule conjunct1)
  have len: "length ?ok = 5" and ne: "list_all (\<lambda>i. i \<noteq> []) ?ok"
    and cl: "filter (\<lambda>i. i \<noteq> []) ?ok = ?ok" "filter (\<lambda>i. i \<noteq> []) ?bad = ?bad"
    by simp_all
  have fl: "float_plain ''100.0'' = Inr 100"
    by (simp add: float_plain_def unsigned_def negative_def is_digit_def nat_of_digits_def)
  have i5: "int_plain ''5'' = Inr 5" and i3: "int_plain ''3'' = Inr 3"
    by (simp_all add: int_plain_def unsigned_def negative_def is_digit_def nat_of_digits_def)
  have ty: "typed_inputs ?E ?ok = Inr [PStr ''2025-10-25'', PStr ''Squat'', PFloat 100, PInt 5, PInt 3]"
    by (simp add: typed_inputs_def list_item_def sample_env_def fl i5 i3)
  have bad: "isl (branch_inputs ?E ''log_gym_set'' ?bad)"
    by (simp add: branch_inputs_def typed_inputs_def list_item_def sample_env_def float_plain_def
        unsigned_def is_digit_def)
  have br: "branch_inputs ?E ''log_gym_set'' ?ok =
      Inr [PStr ''2025-10-25'', PStr ''Squat'', PFloat 100, PInt 5, PInt 3]"
    by (simp add: branch_inputs_def ty)
  have pd: "parse_date ?E (PStr ''2025-10-25'') = Inr 739549"
    by (simp add: parse_date_def sample_env_def parse_2025_10_25)
  have v: "valid_set ?E (PStr ''2025-10-25'') (PStr ''Squat'') (PFloat 100) (PInt 5) (PInt 3)"
    by (simp add: valid_set_def positive_def pd)
  have lt: "logged_text ?E (PStr ''2025-10-25'') (PStr ''Squat'') (PFloat 100) (PInt 5) (PInt 3) =
      ''Successfully logged Set 3 of Squat (100.0kg x 5 reps) for 2025-10-25.''"
    by (simp add: logged_text_def sample_env_def float_text_def str_int_def digits.simps digit_def
        frac_digits_zero)
  note th = dispatch_invokes_the_tool_again [OF reg, of ?ok sample_world
      "[PStr ''2025-10-25'', PStr ''Squat'', PFloat 100, PInt 5, PInt 3]"
      "PStr ''2025-10-25''" "PStr ''Squat''" "PFloat 100" "PInt 5" "PInt 3"]
  note tb = dispatch_invokes_the_tool_again [OF reg, of ?bad sample_world]
  from conjunct2 [OF conjunct2 [OF conjunct2 [OF th]]] len ne ty v sample_world_facts(1)
  have d: "fst (call ''log_gym_set'' ?t (map PStr ?ok) sample_world) = Inr internal_error \<and>
       tables (snd (call ''log_gym_set'' ?t (map PStr ?ok) sample_world)) = tables sample_world \<and>
       fst (dispatch ?E ''log_gym_set'' ?t ?ok sample_world) =
         Inr (logged_text ?E (PStr ''2025-10-25'') (PStr ''Squat'') (PFloat 100) (PInt 5) (PInt 3)) \<and>
       tables (snd (dispatch ?E ''log_gym_set'' ?t ?ok sample_world)) =
         (oura_sleep sample_world, oura_activity sample_world,
          manual_workouts sample_world @
            [workout_row (PStr ''2025-10-25'') (PStr ''Squat'') (PFloat 100) (PInt 5) (PInt 3)])"
    unfolding cl by simp
  then have d1: "fst (call ''log_gym_set'' ?t (map PStr ?ok) sample_world) = Inr internal_error" 
    by (rule conjunct1)
  from conjunct1 [OF conjunct2 [OF conjunct2 [OF th]]] d1 br
  have c: "dispatch ?E ''log_gym_set'' ?t ?ok sample_world =
     call ''log_gym_set'' ?t [PStr ''2025-10-25'', PStr ''Squat'', PFloat 100, PInt 5, PInt 3]
       (snd (call ''log_gym_set'' ?t (map PStr ?ok) sample_world))"
    unfolding cl by simp
  from conjunct1 [OF conjunct2 [OF tb]] bad
  have b: "isl (fst (dispatch ?E ''log_gym_set'' ?t ?bad sample_world)) \<and>
     snd (dispatch ?E ''log_gym_set'' ?t ?bad sample_world) =
       snd (call ''log_gym_set'' ?t (map PStr ?bad) sample_world)"
    unfolding cl by simp
  from reg len ne ty v sample_world_facts(1) d c b bad show ?thesis
    by (simp add: lt workout_row_def)
qed

text \<open>
  The counterexample: the decision with the weight \<^verbatim>\<open>heavy\<close> names a registered
  tool, and the whole query logs a single invocation of it.
\<close>

theorem single_invocation_counterexample:
  "process_query
     (sample_env (Inr ''ACTION: TOOL_CALL | log_gym_set | 2025-10-25 | Squat | heavy | 5 | 3'') (Inr ''Done''))
     ''Log my squats'' sample_world =
   (Inr (execution_error (''could not convert string to float: '' @ quoted ''heavy'')),
    sample_world\<lparr>events :=
      [Completion (decision_prompt
         (sample_env (Inr ''ACTION: TOOL_CALL | log_gym_set | 2025-10-25 | Squat | heavy | 5 | 3'') (Inr ''Done''))
         739549 ''Log my squats''),
       Invoke ''log_gym_set'' [PStr ''2025-10-25'', PStr ''Squat'', PStr ''heavy'', PStr ''5'', PStr ''3'']]\<rparr>)"
proof -
  let ?E = "sample_env (Inr ''ACTION: TOOL_CALL | log_gym_set | 2025-10-25 | Squat | heavy | 5 | 3'') (Inr ''Done'')"
  have E: "llm ?E = Some (scripted (Inr ''ACTION: TOOL_CALL | log_gym_set | 2025-10-25 | Squat | heavy | 5 | 3'') (Inr ''Done''))"
    "today ?E = 739550" "supabase_available ?E"
    "float_of_str ?E = float_plain" "parse_date ?E (PStr ''2025-10-25'') = Inr 739549"
    by (simp_all add: sample_env_def parse_date_def parse_2025_10_25)
  have f: "float_plain ''heavy'' = Inl (''could not convert string to float: '' @ quoted ''heavy'')"
    by (simp add: float_plain_def unsigned_def is_digit_def)
  have l: "log_gym_set ?E (PStr ''2025-10-25'') (PStr ''Squat'') (PStr ''heavy'') (PStr ''5'') (PStr ''3'') w
      = (internal_error, w)" for w
    by (simp add: log_gym_set_def E valid_params_def py_gt_def)
  show ?thesis
    by (simp add: process_query_def execution_stage_def tool_call_def parse_tool_call_def
        list_item_def strip_def is_space_def tools_dict_lookup E dispatch_def call_def
        branch_inputs_def minus_days_def MAXORDINAL_def Let_def scripted_def
        tools_dict_funcs log_gym_set_func_def l typed_inputs_def f log_event_def
        sample_world_facts)
qed

end
